theory Spec2Isabelle
  imports Complex_Main "HOL-Library.Word"
begin

section \<open>Life stages of \<open>Osmia bicornis\<close>: a shallow embedding\<close>

text \<open>
  The embedding follows \<^verbatim>\<open>Osmia_enhanced.cpp\<close> (the life stages egg to adult in cocoon),
  \<^verbatim>\<open>Osmia_enh_PART2_LifeStages.h\<close> (the inline members of the stage classes) and the two
  functions of \<^verbatim>\<open>Osmia_Population_Manager_dox.cpp\<close> the stages depend on.

  Conventions.
  \<^item> A C++ \<^verbatim>\<open>double\<close> is a \<open>real\<close>: the arithmetic is the exact one, rounding and the
    special values of the floating-point format are left out.
  \<^item> A C++ \<^verbatim>\<open>int\<close> is an \<open>int\<close>: the day counters of the model stay far from the limits of
    32 bits. The one \<^verbatim>\<open>unsigned\<close> parameter (of \<^verbatim>\<open>SetAgeDegrees\<close>) is a \<open>32 word\<close>.
  \<^item> The class chain \<^verbatim>\<open>Osmia_Base\<close>, \<^verbatim>\<open>Osmia_Egg\<close>, \<^verbatim>\<open>Osmia_Larva\<close>, \<^verbatim>\<open>Osmia_Prepupa\<close>,
    \<^verbatim>\<open>Osmia_Pupa\<close>, \<^verbatim>\<open>Osmia_InCocoon\<close> is a chain of record extensions; a class that adds no
    member is a synonym of its base.
  \<^item> The static parameter members of \<^verbatim>\<open>Osmia_Base\<close> are the record \<open>Osmia_params\<close>, the
    values the scheduler publishes each day are the record \<open>day_env\<close>; both are passed
    to every member function.
  \<^item> The random generators are outside the sources read here: their successive values are a
    parameter (record \<open>rng\<close>), and a call returns the next value and counts itself.
  \<^item> The blocks under the macros \<^verbatim>\<open>__OSMIA_PESTICIDE_ENGINE\<close> and \<^verbatim>\<open>__OSMIATESTING\<close> are
    conditional instrumentation; the build modelled is the one without them.
\<close>

subsection \<open>Enumerations\<close>

datatype TTypeOfOsmiaState =
    toOsmias_InitialState
  | toOsmias_Develop
  | toOsmias_NextStage
  | toOsmias_Disperse
  | toOsmias_NestProvisioning
  | toOsmias_ReproductiveBehaviour
  | toOsmias_Emerged
  | toOsmias_Die

datatype TTypeOfOsmiaParasitoids =
    topara_Unparasitised
  | topara_Bombylid
  | topara_Cleptoparasite
  | topara_foobar

datatype TTypeOfOsmiaLifeStages =
    to_OsmiaEgg
  | to_OsmiaLarva
  | to_OsmiaPrepupa
  | to_OsmiaPupa
  | to_OsmiaInCocoon
  | to_OsmiaFemale

subsection \<open>Random numbers\<close>

text \<open>
  \<^verbatim>\<open>g_rand_uni_fnc()\<close> returns a \<^verbatim>\<open>double\<close>, \<^verbatim>\<open>g_random_fnc(n)\<close> an \<^verbatim>\<open>int\<close>. Their
  definitions are not part of the sources, so the values they return are given by two
  streams, one for each function, indexed by the number of calls of that function made so
  far. Where a range matters (\<open>0 \<le> u < 1\<close>, \<open>0 \<le> r < n\<close>) it is a hypothesis of the
  theorem.
\<close>

record rng =
  rand_uni :: "nat \<Rightarrow> real"
  random_int :: "nat \<Rightarrow> int \<Rightarrow> int"
  uni_calls :: nat
  int_calls :: nat

definition g_rand_uni_fnc :: "rng \<Rightarrow> real \<times> rng" where
  "g_rand_uni_fnc g = (rand_uni g (uni_calls g), g\<lparr>uni_calls := Suc (uni_calls g)\<rparr>)"

definition g_random_fnc :: "int \<Rightarrow> rng \<Rightarrow> int \<times> rng" where
  "g_random_fnc n g = (random_int g (int_calls g) n, g\<lparr>int_calls := Suc (int_calls g)\<rparr>)"

subsection \<open>Nest, creation data, parameters\<close>

text \<open>The two members of \<^verbatim>\<open>Osmia_Nest\<close> the life stages read.\<close>

record Osmia_Nest =
  m_isOpen :: bool
  m_aspectdelay :: int

definition GetIsOpen :: "Osmia_Nest \<Rightarrow> bool" where
  "GetIsOpen n = m_isOpen n"

definition GetAspectDelay :: "Osmia_Nest \<Rightarrow> int" where
  "GetAspectDelay n = m_aspectdelay n"

text \<open>
  \<^verbatim>\<open>struct_Osmia\<close>, without the pointers to the landscape and to the population manager.
  A nest pointer is an optional address, \<open>None\<close> being \<^verbatim>\<open>nullptr\<close>. The members are
  prefixed with the name the stages give the structure, \<^verbatim>\<open>sO\<close>.
\<close>

type_synonym nest_ptr = "nat option"

record struct_Osmia =
  sO_x :: int
  sO_y :: int
  sO_age :: int
  sO_sex :: bool
  sO_nest :: nest_ptr
  sO_parasitised :: TTypeOfOsmiaParasitoids
  sO_mass :: real
  sO_pest_mortality :: real
  sO_overwintering_degree_days :: real

text \<open>The configuration values read by \<^verbatim>\<open>Osmia_Base::SetParameterValues\<close> for these stages.\<close>

record Osmia_cfg =
  cfg_OsmiaEggDailyMORT :: real
  cfg_OsmiaLarvaDailyMORT :: real
  cfg_OsmiaPrepupaDailyMORT :: real
  cfg_OsmiaPupaDailyMORT :: real
  cfg_OsmiaInCocoonWinterMortConst :: real
  cfg_OsmiaInCocoonWinterMortSlope :: real
  cfg_OsmiaEggDevelTotalDD :: real
  cfg_OsmiaEggDevelThreshold :: real
  cfg_OsmiaLarvaDevelThreshold :: real
  cfg_OsmiaLarvaDevelTotalDD :: real
  cfg_OsmiaPupaDevelTotalDD :: real
  cfg_OsmiaPupaDevelThreshold :: real
  cfg_OsmiaPrepupaDevelTotalDays :: real
  cfg_OsmiaInCocoonOverwinteringTempThreshold :: real
  cfg_OsmiaInCocoonEmergenceTempThreshold :: real
  cfg_OsmiaInCocoonPrewinteringTempThreshold :: real
  cfg_OsmiaInCocoonEmergCountConst :: real
  cfg_OsmiaInCocoonEmergCountSlope :: real
  cfg_OsmiaFemaleMassFromProvMassConst :: real
  cfg_OsmiaFemaleMassFromProvMassSlope :: real

record Osmia_params =
  m_DailyDevelopmentMortEggs :: real
  m_DailyDevelopmentMortLarvae :: real
  m_DailyDevelopmentMortPrepupae :: real
  m_DailyDevelopmentMortPupae :: real
  m_OsmiaInCocoonWinterMortConst :: real
  m_OsmiaInCocoonWinterMortSlope :: real
  m_OsmiaEggDevelTotalDD :: real
  m_OsmiaEggDevelThreshold :: real
  m_OsmiaLarvaDevelThreshold :: real
  m_OsmiaLarvaDevelTotalDD :: real
  m_OsmiaPupaDevelTotalDD :: real
  m_OsmiaPupaDevelThreshold :: real
  m_OsmiaPrepupalDevelTotalDays :: real
  m_OsmiaPrepupalDevelTotalDays10pct :: real
  m_OsmiaInCocoonOverwinteringTempThreshold :: real
  m_OsmiaInCocoonEmergenceTempThreshold :: real
  m_OsmiaInCocoonPrewinteringTempThreshold :: real
  m_OsmiaInCocoonEmergCountConst :: real
  m_OsmiaInCocoonEmergCountSlope :: real
  m_OsmiaFemaleMassFromProvMassConst :: real
  m_OsmiaFemaleMassFromProvMassSlope :: real

text \<open>
  \<^verbatim>\<open>Osmia_Base::SetParameterValues\<close>: the assignments to the members above (the mass ranges,
  the dispersal distances and the life-history values of the adult female are not used by
  the stages modelled here).
\<close>

definition SetParameterValues :: "Osmia_cfg \<Rightarrow> Osmia_params" where
  "SetParameterValues c =
    \<lparr> m_DailyDevelopmentMortEggs = cfg_OsmiaEggDailyMORT c,
      m_DailyDevelopmentMortLarvae = cfg_OsmiaLarvaDailyMORT c,
      m_DailyDevelopmentMortPrepupae = cfg_OsmiaPrepupaDailyMORT c,
      m_DailyDevelopmentMortPupae = cfg_OsmiaPupaDailyMORT c,
      m_OsmiaInCocoonWinterMortConst = cfg_OsmiaInCocoonWinterMortConst c,
      m_OsmiaInCocoonWinterMortSlope = cfg_OsmiaInCocoonWinterMortSlope c,
      m_OsmiaEggDevelTotalDD = cfg_OsmiaEggDevelTotalDD c,
      m_OsmiaEggDevelThreshold = cfg_OsmiaEggDevelThreshold c,
      m_OsmiaLarvaDevelThreshold = cfg_OsmiaLarvaDevelThreshold c,
      m_OsmiaLarvaDevelTotalDD = cfg_OsmiaLarvaDevelTotalDD c,
      m_OsmiaPupaDevelTotalDD = cfg_OsmiaPupaDevelTotalDD c,
      m_OsmiaPupaDevelThreshold = cfg_OsmiaPupaDevelThreshold c,
      m_OsmiaPrepupalDevelTotalDays = cfg_OsmiaPrepupaDevelTotalDays c,
      m_OsmiaPrepupalDevelTotalDays10pct = cfg_OsmiaPrepupaDevelTotalDays c * (1 / 10),
      m_OsmiaInCocoonOverwinteringTempThreshold = cfg_OsmiaInCocoonOverwinteringTempThreshold c,
      m_OsmiaInCocoonEmergenceTempThreshold = cfg_OsmiaInCocoonEmergenceTempThreshold c,
      m_OsmiaInCocoonPrewinteringTempThreshold = cfg_OsmiaInCocoonPrewinteringTempThreshold c,
      m_OsmiaInCocoonEmergCountConst = cfg_OsmiaInCocoonEmergCountConst c,
      m_OsmiaInCocoonEmergCountSlope = cfg_OsmiaInCocoonEmergCountSlope c,
      m_OsmiaFemaleMassFromProvMassConst = cfg_OsmiaFemaleMassFromProvMassConst c,
      m_OsmiaFemaleMassFromProvMassSlope = cfg_OsmiaFemaleMassFromProvMassSlope c \<rparr>"

text \<open>The defaults of the configuration variables, as declared in the sources.\<close>

definition default_cfg :: Osmia_cfg where
  "default_cfg =
    \<lparr> cfg_OsmiaEggDailyMORT = 14 / 10000,
      cfg_OsmiaLarvaDailyMORT = 14 / 10000,
      cfg_OsmiaPrepupaDailyMORT = 3 / 1000,
      cfg_OsmiaPupaDailyMORT = 3 / 1000,
      cfg_OsmiaInCocoonWinterMortConst = - (463 / 100),
      cfg_OsmiaInCocoonWinterMortSlope = 5 / 100,
      cfg_OsmiaEggDevelTotalDD = 86,
      cfg_OsmiaEggDevelThreshold = 0,
      cfg_OsmiaLarvaDevelThreshold = 45 / 10,
      cfg_OsmiaLarvaDevelTotalDD = 422,
      cfg_OsmiaPupaDevelTotalDD = 570,
      cfg_OsmiaPupaDevelThreshold = 11 / 10,
      cfg_OsmiaPrepupaDevelTotalDays = 45,
      cfg_OsmiaInCocoonOverwinteringTempThreshold = 0,
      cfg_OsmiaInCocoonEmergenceTempThreshold = 5,
      cfg_OsmiaInCocoonPrewinteringTempThreshold = 15,
      cfg_OsmiaInCocoonEmergCountConst = 354819 / 10000,
      cfg_OsmiaInCocoonEmergCountSlope = - (147 / 10000),
      cfg_OsmiaFemaleMassFromProvMassConst = 4,
      cfg_OsmiaFemaleMassFromProvMassSlope = 1 / 4 \<rparr>"

text \<open>
  What the scheduler publishes before the individuals step: the temperature
  (\<^verbatim>\<open>m_TempToday\<close>, and \<^verbatim>\<open>SupplyTemp()\<close> of the landscape), the day in the year, the two
  season flags and the prepupal development rate of the population manager. \<^verbatim>\<open>March\<close> and
  \<^verbatim>\<open>June\<close> are the framework's day numbers of the month starts; they are not declared in
  the sources and are carried here. \<^verbatim>\<open>emergenceday_Geti\<close> is the value
  \<^verbatim>\<open>m_emergenceday.Geti()\<close> returns to the individual on that day.
\<close>

record day_env =
  m_TempToday :: real
  SupplyTemp :: real
  m_DayInYear :: int
  March :: int
  June :: int
  m_PreWinteringEndFlag :: bool
  m_OverWinterEndFlag :: bool
  m_PrePupalDevelDaysToday :: real
  emergenceday_Geti :: int

definition IsEndPreWinter :: "day_env \<Rightarrow> bool" where
  "IsEndPreWinter d = m_PreWinteringEndFlag d"

definition IsOverWinterEnd :: "day_env \<Rightarrow> bool" where
  "IsOverWinterEnd d = m_OverWinterEndFlag d"

definition GetPrePupalDevelDays :: "day_env \<Rightarrow> real" where
  "GetPrePupalDevelDays d = m_PrePupalDevelDaysToday d"

subsection \<open>The individuals\<close>

text \<open>
  \<^verbatim>\<open>m_CurrentStateNo\<close> and \<^verbatim>\<open>m_StepDone\<close> are members of the framework class \<^verbatim>\<open>TAnimal\<close>,
  which is outside the sources.
\<close>

record Osmia_Base =
  m_Location_x :: int
  m_Location_y :: int
  m_CurrentStateNo :: int
  m_StepDone :: bool
  m_CurrentOState :: TTypeOfOsmiaState
  m_Age :: int
  m_OurNest :: nest_ptr
  m_ParasitoidStatus :: TTypeOfOsmiaParasitoids
  m_Mass :: real

record Osmia_Egg = Osmia_Base +
  m_AgeDegrees :: real
  m_Sex :: bool
  m_StageAge :: int

type_synonym Osmia_Larva = Osmia_Egg

record Osmia_Prepupa = Osmia_Egg +
  m_myOsmiaPrepupaDevelTotalDays :: real

type_synonym Osmia_Pupa = Osmia_Prepupa

record Osmia_InCocoon = Osmia_Prepupa +
  m_emergencecounter :: int
  m_DDPrewinter :: real

text \<open>
  Modelled from the spec: a death or a metamorphosis destroys the individual. \<^verbatim>\<open>KillThis\<close>
  is a member of \<^verbatim>\<open>TAnimal\<close>; every call site in the sources notes what it does: "sets
  current state to -1 and StepDone to true".
\<close>

definition KillThis :: "'a Osmia_Base_scheme \<Rightarrow> 'a Osmia_Base_scheme" where
  "KillThis b = b\<lparr>m_CurrentStateNo := - 1, m_StepDone := True\<rparr>"

subsection \<open>Winter mortality of the adult in cocoon\<close>

text \<open>
  \<^verbatim>\<open>Osmia_InCocoon::WinterMortality\<close>: one draw of \<^verbatim>\<open>g_random_fnc(100)\<close>, compared with the
  value of the linear equation.
\<close>

definition Osmia_InCocoon_WinterMortality ::
  "Osmia_params \<Rightarrow> Osmia_InCocoon \<Rightarrow> rng \<Rightarrow> bool \<times> rng" where
  "Osmia_InCocoon_WinterMortality P c g =
    (let (r, g') = g_random_fnc 100 g in
     if real_of_int r < m_OsmiaInCocoonWinterMortSlope P * m_DDPrewinter c
                          + m_OsmiaInCocoonWinterMortConst P
     then (True, g') else (False, g'))"

subsection \<open>Constructors\<close>

text \<open>
  Every stage is built by \<^verbatim>\<open>new\<close> in \<^verbatim>\<open>CreateObjects\<close>, so by its constructor, which runs
  the constructors of its base classes first. \<^verbatim>\<open>Osmia_Base\<close> takes location, age, mass,
  parasitism status and nest from the creation data and sets the initial state;
  \<^verbatim>\<open>Osmia_Egg\<close> sets the degree-day accumulator to 0 and takes sex, nest and stage age;
  \<^verbatim>\<open>Osmia_Larva\<close> repeats \<^verbatim>\<open>ReInit\<close> with the same data. A new \<^verbatim>\<open>TAnimal\<close> is alive and has
  not stepped.
\<close>

definition Osmia_Egg_ctor :: "struct_Osmia \<Rightarrow> Osmia_Egg" where
  "Osmia_Egg_ctor data =
    \<lparr> m_Location_x = sO_x data,
      m_Location_y = sO_y data,
      m_CurrentStateNo = 0,
      m_StepDone = False,
      m_CurrentOState = toOsmias_InitialState,
      m_Age = sO_age data,
      m_OurNest = sO_nest data,
      m_ParasitoidStatus = sO_parasitised data,
      m_Mass = sO_mass data,
      m_AgeDegrees = 0,
      m_Sex = sO_sex data,
      m_StageAge = sO_age data \<rparr>"

definition Osmia_Larva_ctor :: "struct_Osmia \<Rightarrow> Osmia_Larva" where
  "Osmia_Larva_ctor data = Osmia_Egg_ctor data"

text \<open>
  \<^verbatim>\<open>Osmia_Prepupa::Osmia_Prepupa\<close>: after the larva part, the accumulator is 0 and the
  individual target is the mean plus the share \<open>0.2 * u\<close> of the mean minus its tenth.
\<close>

definition Osmia_Prepupa_ctor ::
  "Osmia_params \<Rightarrow> struct_Osmia \<Rightarrow> rng \<Rightarrow> Osmia_Prepupa \<times> rng" where
  "Osmia_Prepupa_ctor P data g =
    (let l = Osmia_Larva_ctor data;
         (u, g') = g_rand_uni_fnc g;
         max20pct = m_OsmiaPrepupalDevelTotalDays P * (2 / 10) * u
     in (\<lparr> m_Location_x = m_Location_x l,
           m_Location_y = m_Location_y l,
           m_CurrentStateNo = m_CurrentStateNo l,
           m_StepDone = m_StepDone l,
           m_CurrentOState = m_CurrentOState l,
           m_Age = m_Age l,
           m_OurNest = m_OurNest l,
           m_ParasitoidStatus = m_ParasitoidStatus l,
           m_Mass = m_Mass l,
           m_AgeDegrees = 0,
           m_Sex = m_Sex l,
           m_StageAge = m_StageAge l,
           m_myOsmiaPrepupaDevelTotalDays =
             m_OsmiaPrepupalDevelTotalDays P + max20pct - m_OsmiaPrepupalDevelTotalDays10pct P \<rparr>,
         g'))"

definition Osmia_Pupa_ctor ::
  "Osmia_params \<Rightarrow> struct_Osmia \<Rightarrow> rng \<Rightarrow> Osmia_Pupa \<times> rng" where
  "Osmia_Pupa_ctor P data g = Osmia_Prepupa_ctor P data g"

text \<open>
  \<^verbatim>\<open>Osmia_InCocoon::Osmia_InCocoon\<close>: after the pupa part, \<^verbatim>\<open>Osmia_InCocoon::ReInit\<close> sets the
  counter to 99999, the prewinter degree-days to 0 and the accumulator to the
  overwintering degree-days of the creation data.
\<close>

definition Osmia_InCocoon_ctor ::
  "Osmia_params \<Rightarrow> struct_Osmia \<Rightarrow> rng \<Rightarrow> Osmia_InCocoon \<times> rng" where
  "Osmia_InCocoon_ctor P data g =
    (let (p, g') = Osmia_Pupa_ctor P data g
     in (\<lparr> m_Location_x = m_Location_x p,
           m_Location_y = m_Location_y p,
           m_CurrentStateNo = m_CurrentStateNo p,
           m_StepDone = m_StepDone p,
           m_CurrentOState = m_CurrentOState p,
           m_Age = m_Age p,
           m_OurNest = m_OurNest p,
           m_ParasitoidStatus = m_ParasitoidStatus p,
           m_Mass = m_Mass p,
           m_AgeDegrees = sO_overwintering_degree_days data,
           m_Sex = m_Sex p,
           m_StageAge = m_StageAge p,
           m_myOsmiaPrepupaDevelTotalDays = m_myOsmiaPrepupaDevelTotalDays p,
           m_emergencecounter = 99999,
           m_DDPrewinter = 0 \<rparr>,
         g'))"

subsection \<open>Daily mortality and development of egg, larva, prepupa and pupa\<close>

definition Osmia_Egg_DailyMortality :: "Osmia_params \<Rightarrow> rng \<Rightarrow> bool \<times> rng" where
  "Osmia_Egg_DailyMortality P g =
    (let (u, g') = g_rand_uni_fnc g
     in if u < m_DailyDevelopmentMortEggs P then (True, g') else (False, g'))"

definition Osmia_Larva_DailyMortality :: "Osmia_params \<Rightarrow> rng \<Rightarrow> bool \<times> rng" where
  "Osmia_Larva_DailyMortality P g =
    (let (u, g') = g_rand_uni_fnc g
     in if u < m_DailyDevelopmentMortLarvae P then (True, g') else (False, g'))"

definition Osmia_Prepupa_DailyMortality :: "Osmia_params \<Rightarrow> rng \<Rightarrow> bool \<times> rng" where
  "Osmia_Prepupa_DailyMortality P g =
    (let (u, g') = g_rand_uni_fnc g
     in if u < m_DailyDevelopmentMortPrepupae P then (True, g') else (False, g'))"

definition Osmia_Pupa_DailyMortality :: "Osmia_params \<Rightarrow> rng \<Rightarrow> bool \<times> rng" where
  "Osmia_Pupa_DailyMortality P g =
    (let (u, g') = g_rand_uni_fnc g
     in if u < m_DailyDevelopmentMortPupae P then (True, g') else (False, g'))"

text \<open>
  \<^verbatim>\<open>Osmia_Egg::st_Develop\<close>. The test of the nest guards the mortality draw only; the
  statements after it run for every egg. The result is the next state, the egg and the
  generator.
\<close>

definition Osmia_Egg_st_Develop ::
  "Osmia_params \<Rightarrow> day_env \<Rightarrow> Osmia_Nest \<Rightarrow> Osmia_Egg \<Rightarrow> rng
     \<Rightarrow> TTypeOfOsmiaState \<times> Osmia_Egg \<times> rng" where
  "Osmia_Egg_st_Develop P d nest e g =
    (let (dies, g1) = (if \<not> GetIsOpen nest then Osmia_Egg_DailyMortality P g else (False, g))
     in if dies then (toOsmias_Die, e, g1)
        else
          let e1 = e\<lparr>m_Age := m_Age e + 1\<rparr>;
              DD = m_TempToday d - m_OsmiaEggDevelThreshold P;
              e2 = (if DD > 0 then e1\<lparr>m_AgeDegrees := m_AgeDegrees e1 + DD\<rparr> else e1)
          in if m_AgeDegrees e2 > m_OsmiaEggDevelTotalDD P
             then (toOsmias_NextStage, e2, g1)
             else (toOsmias_Develop, e2, g1))"

text \<open>\<^verbatim>\<open>Osmia_Larva::st_Develop\<close>: the same shape, with the temperature of the landscape.\<close>

definition Osmia_Larva_st_Develop ::
  "Osmia_params \<Rightarrow> day_env \<Rightarrow> Osmia_Nest \<Rightarrow> Osmia_Larva \<Rightarrow> rng
     \<Rightarrow> TTypeOfOsmiaState \<times> Osmia_Larva \<times> rng" where
  "Osmia_Larva_st_Develop P d nest e g =
    (let (dies, g1) = (if \<not> GetIsOpen nest then Osmia_Larva_DailyMortality P g else (False, g))
     in if dies then (toOsmias_Die, e, g1)
        else
          let e1 = e\<lparr>m_Age := m_Age e + 1\<rparr>;
              DD = SupplyTemp d - m_OsmiaLarvaDevelThreshold P;
              e2 = (if DD > 0 then e1\<lparr>m_AgeDegrees := m_AgeDegrees e1 + DD\<rparr> else e1)
          in if m_AgeDegrees e2 > m_OsmiaLarvaDevelTotalDD P
             then (toOsmias_NextStage, e2, g1)
             else (toOsmias_Develop, e2, g1))"

text \<open>
  \<^verbatim>\<open>Osmia_Prepupa::st_Develop\<close>. The comparison \<^verbatim>\<open>m_AgeDegrees++ > target\<close> reads the counter
  after the day's rate was added and then increments it once more.
\<close>

definition Osmia_Prepupa_st_Develop ::
  "Osmia_params \<Rightarrow> day_env \<Rightarrow> Osmia_Prepupa \<Rightarrow> rng
     \<Rightarrow> TTypeOfOsmiaState \<times> Osmia_Prepupa \<times> rng" where
  "Osmia_Prepupa_st_Develop P d e g =
    (let (dies, g1) = Osmia_Prepupa_DailyMortality P g
     in if dies then (toOsmias_Die, e, g1)
        else
          let e1 = e\<lparr>m_Age := m_Age e + 1\<rparr>;
              e2 = e1\<lparr>m_AgeDegrees := m_AgeDegrees e1 + GetPrePupalDevelDays d\<rparr>;
              over = (m_AgeDegrees e2 > m_myOsmiaPrepupaDevelTotalDays e2);
              e3 = e2\<lparr>m_AgeDegrees := m_AgeDegrees e2 + 1\<rparr>
          in if over then (toOsmias_NextStage, e3, g1) else (toOsmias_Develop, e3, g1))"

definition Osmia_Pupa_st_Develop ::
  "Osmia_params \<Rightarrow> day_env \<Rightarrow> Osmia_Pupa \<Rightarrow> rng
     \<Rightarrow> TTypeOfOsmiaState \<times> Osmia_Pupa \<times> rng" where
  "Osmia_Pupa_st_Develop P d e g =
    (let (dies, g1) = Osmia_Pupa_DailyMortality P g
     in if dies then (toOsmias_Die, e, g1)
        else
          let e1 = e\<lparr>m_Age := m_Age e + 1\<rparr>;
              DD = SupplyTemp d - m_OsmiaPupaDevelThreshold P;
              e2 = (if DD > 0 then e1\<lparr>m_AgeDegrees := m_AgeDegrees e1 + DD\<rparr> else e1)
          in if m_AgeDegrees e2 > m_OsmiaPupaDevelTotalDD P
             then (toOsmias_NextStage, e2, g1)
             else (toOsmias_Develop, e2, g1))"

text \<open>
  The part of \<^verbatim>\<open>Osmia_Population_Manager::DoFirst\<close> that sets the prepupal rate of the day:
  the temperature rounded to the nearest integer, held in 0..41, indexes the table of 42
  rates.
\<close>

definition DoFirst_PrePupalDevelDaysToday :: "real list \<Rightarrow> real \<Rightarrow> real" where
  "DoFirst_PrePupalDevelDaysToday m_PrePupalDevelRates temp =
    (let temp_i = \<lfloor>temp + 1 / 2\<rfloor>;
         temp_i1 = (if temp_i < 0 then 0 else temp_i);
         temp_i2 = (if temp_i1 > 41 then 41 else temp_i1)
     in m_PrePupalDevelRates ! nat temp_i2)"

definition cfg_OsmiaPrepupalDevelRates :: "real list" where
  "cfg_OsmiaPrepupalDevelRates =
    [118180491 / 10 ^ 9, 128062924 / 10 ^ 9, 139167698 / 10 ^ 9, 151690375 / 10 ^ 9,
     165863251 / 10 ^ 9, 181962547 / 10 ^ 9, 200316654 / 10 ^ 9, 221315209 / 10 ^ 9,
     245418359 / 10 ^ 9, 273164807 / 10 ^ 9, 305175879 / 10 ^ 9, 342150483 / 10 ^ 9,
     384842052 / 10 ^ 9, 434002716 / 10 ^ 9, 490272059 / 10 ^ 9, 553979475 / 10 ^ 9,
     62482638 / 10 ^ 8, 701432201 / 10 ^ 9, 780791977 / 10 ^ 9, 857828943 / 10 ^ 9,
     925409524 / 10 ^ 9, 97526899 / 10 ^ 8, 1, 995492173 / 10 ^ 9,
     96251684 / 10 ^ 8, 90641791 / 10 ^ 8, 835121012 / 10 ^ 9, 756712977 / 10 ^ 9,
     677752358 / 10 ^ 9, 602659522 / 10 ^ 9, 53389011 / 10 ^ 8, 472441557 / 10 ^ 9,
     418380352 / 10 ^ 9, 371255655 / 10 ^ 9, 330377543 / 10 ^ 9, 294984821 / 10 ^ 9,
     264336547 / 10 ^ 9, 237755941 / 10 ^ 9, 214646732 / 10 ^ 9, 194494708 / 10 ^ 9,
     176862031 / 10 ^ 9, 161378614 / 10 ^ 9]"

subsection \<open>Development of the adult in cocoon\<close>

text \<open>The conversion \<^verbatim>\<open>int(x)\<close> of a \<^verbatim>\<open>double\<close> drops the fraction (towards zero).\<close>

definition double_to_int :: "real \<Rightarrow> int" where
  "double_to_int v = (if 0 \<le> v then \<lfloor>v\<rfloor> else \<lceil>v\<rceil>)"

text \<open>
  \<^verbatim>\<open>Osmia_InCocoon::st_Develop\<close>. The three phases are told apart by the two flags of the
  population manager. The test for the last day before June sits inside the branch of the
  warm days, after the test of the counter.
\<close>

definition Osmia_InCocoon_st_Develop ::
  "Osmia_params \<Rightarrow> day_env \<Rightarrow> Osmia_Nest \<Rightarrow> Osmia_InCocoon \<Rightarrow> rng
     \<Rightarrow> TTypeOfOsmiaState \<times> Osmia_InCocoon \<times> rng" where
  "Osmia_InCocoon_st_Develop P d nest c g =
    (let c1 = c\<lparr>m_Age := m_Age c + 1\<rparr>
     in if IsEndPreWinter d then
          if \<not> IsOverWinterEnd d then
            let DD = m_TempToday d - m_OsmiaInCocoonOverwinteringTempThreshold P
            in (toOsmias_Develop,
                (if DD > 0 then c1\<lparr>m_AgeDegrees := m_AgeDegrees c1 + DD\<rparr> else c1), g)
          else if m_DayInYear d = March d + 1 then
            (toOsmias_Develop,
             c1\<lparr>m_emergencecounter :=
                  double_to_int (m_OsmiaInCocoonEmergCountConst P
                                 + m_OsmiaInCocoonEmergCountSlope P * m_AgeDegrees c1)
                  + emergenceday_Geti d + GetAspectDelay nest\<rparr>, g)
          else if m_TempToday d \<ge> m_OsmiaInCocoonEmergenceTempThreshold P then
            let c2 = c1\<lparr>m_emergencecounter := m_emergencecounter c1 - 1\<rparr>
            in if m_emergencecounter c2 < 1 then
                 let (dies, g') = Osmia_InCocoon_WinterMortality P c2 g
                 in if dies then (toOsmias_Die, c2, g') else (toOsmias_NextStage, c2, g')
               else if m_DayInYear d = June d - 1 then (toOsmias_Die, c2, g)
               else (toOsmias_Develop, c2, g)
          else (toOsmias_Develop, c1, g)
        else
          (toOsmias_Develop,
           (if m_TempToday d > m_OsmiaInCocoonPrewinteringTempThreshold P
            then c1\<lparr>m_DDPrewinter :=
                      m_DDPrewinter c1 + (m_TempToday d - m_OsmiaInCocoonPrewinteringTempThreshold P)\<rparr>
            else c1), g))"

subsection \<open>Creation of the next stage\<close>

text \<open>
  Modelled from the spec: a new active female has the age, the nest association and the
  mass of its creation data. The class \<^verbatim>\<open>Osmia_Female\<close> derives from \<^verbatim>\<open>Osmia_InCocoon\<close>; the
  members it adds and the body of its constructor are not part of the sources, so among the
  objects of the population a female is represented by the part its base-class
  constructors build.
\<close>

datatype Osmia_individual =
    Egg Osmia_Egg
  | Larva Osmia_Larva
  | Prepupa Osmia_Prepupa
  | Pupa Osmia_Pupa
  | InCocoon Osmia_InCocoon
  | Female Osmia_InCocoon

definition new_Osmia ::
  "Osmia_params \<Rightarrow> TTypeOfOsmiaLifeStages \<Rightarrow> struct_Osmia \<Rightarrow> rng \<Rightarrow> Osmia_individual \<times> rng" where
  "new_Osmia P os_type data g =
    (case os_type of
       to_OsmiaEgg \<Rightarrow> (Egg (Osmia_Egg_ctor data), g)
     | to_OsmiaLarva \<Rightarrow> (Larva (Osmia_Larva_ctor data), g)
     | to_OsmiaPrepupa \<Rightarrow> (let (p, g') = Osmia_Prepupa_ctor P data g in (Prepupa p, g'))
     | to_OsmiaPupa \<Rightarrow> (let (p, g') = Osmia_Pupa_ctor P data g in (Pupa p, g'))
     | to_OsmiaInCocoon \<Rightarrow> (let (c, g') = Osmia_InCocoon_ctor P data g in (InCocoon c, g'))
     | to_OsmiaFemale \<Rightarrow> (let (c, g') = Osmia_InCocoon_ctor P data g in (Female c, g')))"

text \<open>
  \<^verbatim>\<open>Osmia_Population_Manager::CreateObjects\<close>: \<^verbatim>\<open>number\<close> objects of the stage, one per turn
  of the loop. The bookkeeping of the population arrays and of the cell list of the nest is
  not modelled; the result is the list of the new objects.
\<close>

fun CreateObjects_loop ::
  "Osmia_params \<Rightarrow> TTypeOfOsmiaLifeStages \<Rightarrow> struct_Osmia \<Rightarrow> nat \<Rightarrow> rng
     \<Rightarrow> Osmia_individual list \<times> rng" where
  "CreateObjects_loop P os_type data 0 g = ([], g)"
| "CreateObjects_loop P os_type data (Suc n) g =
    (let (ob, g1) = new_Osmia P os_type data g;
         (obs, g2) = CreateObjects_loop P os_type data n g1
     in (ob # obs, g2))"

definition CreateObjects ::
  "Osmia_params \<Rightarrow> TTypeOfOsmiaLifeStages \<Rightarrow> struct_Osmia \<Rightarrow> int \<Rightarrow> rng
     \<Rightarrow> Osmia_individual list \<times> rng" where
  "CreateObjects P os_type data number g = CreateObjects_loop P os_type data (nat number) g"

text \<open>
  The creation data a stage fills in before it calls \<^verbatim>\<open>CreateObjects\<close>: age, location,
  nest, parasitism status, mass and sex of the caller; the two members with a default
  (\<^verbatim>\<open>pest_mortality\<close>, \<^verbatim>\<open>overwintering_degree_days\<close>) keep it.
\<close>

definition struct_Osmia_of :: "'a Osmia_Egg_scheme \<Rightarrow> struct_Osmia" where
  "struct_Osmia_of e =
    \<lparr> sO_x = m_Location_x e,
      sO_y = m_Location_y e,
      sO_age = m_Age e,
      sO_sex = m_Sex e,
      sO_nest = m_OurNest e,
      sO_parasitised = m_ParasitoidStatus e,
      sO_mass = m_Mass e,
      sO_pest_mortality = 0,
      sO_overwintering_degree_days = 0 \<rparr>"

text \<open>
  The four metamorphoses \<^verbatim>\<open>Osmia_Egg::st_Hatch\<close>, \<^verbatim>\<open>Osmia_Larva::st_Prepupate\<close>,
  \<^verbatim>\<open>Osmia_Prepupa::st_Pupate\<close> and \<^verbatim>\<open>Osmia_Pupa::st_Emerge\<close>: one object of the next stage is
  created from the data of the caller, the caller is killed. The result is the returned
  state, the caller, the objects created and the generator.
\<close>

definition Osmia_Egg_st_Hatch ::
  "Osmia_params \<Rightarrow> Osmia_Egg \<Rightarrow> rng
     \<Rightarrow> TTypeOfOsmiaState \<times> Osmia_Egg \<times> Osmia_individual list \<times> rng" where
  "Osmia_Egg_st_Hatch P e g =
    (let sO = struct_Osmia_of e;
         (created, g') = CreateObjects P to_OsmiaLarva sO 1 g
     in (toOsmias_Emerged, KillThis e, created, g'))"

definition Osmia_Larva_st_Prepupate ::
  "Osmia_params \<Rightarrow> Osmia_Larva \<Rightarrow> rng
     \<Rightarrow> TTypeOfOsmiaState \<times> Osmia_Larva \<times> Osmia_individual list \<times> rng" where
  "Osmia_Larva_st_Prepupate P e g =
    (let sO = struct_Osmia_of e;
         (created, g') = CreateObjects P to_OsmiaPrepupa sO 1 g
     in (toOsmias_Emerged, KillThis e, created, g'))"

definition Osmia_Prepupa_st_Pupate ::
  "Osmia_params \<Rightarrow> Osmia_Prepupa \<Rightarrow> rng
     \<Rightarrow> TTypeOfOsmiaState \<times> Osmia_Prepupa \<times> Osmia_individual list \<times> rng" where
  "Osmia_Prepupa_st_Pupate P e g =
    (let sO = struct_Osmia_of e;
         (created, g') = CreateObjects P to_OsmiaPupa sO 1 g
     in (toOsmias_Emerged, KillThis e, created, g'))"

definition Osmia_Pupa_st_Emerge ::
  "Osmia_params \<Rightarrow> Osmia_Pupa \<Rightarrow> rng
     \<Rightarrow> TTypeOfOsmiaState \<times> Osmia_Pupa \<times> Osmia_individual list \<times> rng" where
  "Osmia_Pupa_st_Emerge P e g =
    (let sO = struct_Osmia_of e;
         (created, g') = CreateObjects P to_OsmiaInCocoon sO 1 g
     in (toOsmias_Emerged, KillThis e, created, g'))"

text \<open>
  \<^verbatim>\<open>Osmia_InCocoon::st_Emerge\<close>. The fourth component of the result tells whether
  \<^verbatim>\<open>RemoveCell\<close> was called on the nest. A parasitised female returns \<^verbatim>\<open>toOsmias_Die\<close>
  before anything else is done.
\<close>

definition Osmia_InCocoon_st_Emerge ::
  "Osmia_params \<Rightarrow> Osmia_InCocoon \<Rightarrow> rng
     \<Rightarrow> TTypeOfOsmiaState \<times> Osmia_InCocoon \<times> Osmia_individual list \<times> bool \<times> rng" where
  "Osmia_InCocoon_st_Emerge P c g =
    (if m_Sex c then
       if m_ParasitoidStatus c \<noteq> topara_Unparasitised then (toOsmias_Die, c, [], False, g)
       else
         let sO = \<lparr> sO_x = m_Location_x c,
                    sO_y = m_Location_y c,
                    sO_age = 0,
                    sO_sex = m_Sex c,
                    sO_nest = None,
                    sO_parasitised = topara_Unparasitised,
                    sO_mass = m_OsmiaFemaleMassFromProvMassSlope P * m_Mass c
                              + m_OsmiaFemaleMassFromProvMassConst P,
                    sO_pest_mortality = 0,
                    sO_overwintering_degree_days = 0 \<rparr>;
             (created, g') = CreateObjects P to_OsmiaFemale sO 1 g
         in (toOsmias_Emerged, KillThis c, created, True, g')
     else (toOsmias_Emerged, KillThis c, [], True, g))"

subsection \<open>The daily step of the adult in cocoon\<close>

text \<open>
  The cocoon together with what its steps have produced so far: the objects it created,
  whether its cell was removed from the nest, and the generator.
\<close>

record InCocoon_world =
  w_self :: Osmia_InCocoon
  w_created :: "Osmia_individual list"
  w_cell_removed :: bool
  w_rng :: rng

datatype step_error = unknown_state

text \<open>
  \<^verbatim>\<open>Osmia_InCocoon::Step\<close>; \<^verbatim>\<open>Osmia_Base::st_Dying\<close> is \<^verbatim>\<open>KillThis\<close> followed by \<^verbatim>\<open>RemoveCell\<close>.
  The \<^verbatim>\<open>default\<close> branch warns and exits the process: the error \<open>unknown_state\<close>.
\<close>

definition Osmia_InCocoon_Step ::
  "Osmia_params \<Rightarrow> day_env \<Rightarrow> Osmia_Nest \<Rightarrow> InCocoon_world \<Rightarrow> step_error + InCocoon_world" where
  "Osmia_InCocoon_Step P d nest w =
    (let c = w_self w
     in if m_StepDone c \<or> m_CurrentStateNo c = - 1 then Inr w
        else case m_CurrentOState c of
          toOsmias_InitialState \<Rightarrow>
            Inr (w\<lparr>w_self := c\<lparr>m_CurrentOState := toOsmias_Develop\<rparr>\<rparr>)
        | toOsmias_Develop \<Rightarrow>
            (let (s, c', g') = Osmia_InCocoon_st_Develop P d nest c (w_rng w)
             in Inr (w\<lparr>w_self := c'\<lparr>m_CurrentOState := s, m_StepDone := True\<rparr>,
                       w_rng := g'\<rparr>))
        | toOsmias_NextStage \<Rightarrow>
            (let (s, c', created, removed, g') = Osmia_InCocoon_st_Emerge P c (w_rng w)
             in Inr (w\<lparr>w_self := c'\<lparr>m_CurrentOState := s\<rparr>,
                       w_created := w_created w @ created,
                       w_cell_removed := (w_cell_removed w \<or> removed),
                       w_rng := g'\<rparr>))
        | toOsmias_Die \<Rightarrow>
            Inr (w\<lparr>w_self := (KillThis c)\<lparr>m_StepDone := True\<rparr>, w_cell_removed := True\<rparr>)
        | _ \<Rightarrow> Inl unknown_state)"

text \<open>
  A life in the cocoon is a sequence of calls of \<^verbatim>\<open>Step\<close>. The scheduler clears
  \<^verbatim>\<open>m_StepDone\<close> when a new day begins and publishes the values of the day; each call comes
  with the flag "first call of a new day" and the values of its day. A call that exits
  the process ends the sequence.
\<close>

fun Osmia_InCocoon_Steps ::
  "Osmia_params \<Rightarrow> Osmia_Nest \<Rightarrow> (bool \<times> day_env) list \<Rightarrow> InCocoon_world
     \<Rightarrow> step_error + InCocoon_world" where
  "Osmia_InCocoon_Steps P nest [] w = Inr w"
| "Osmia_InCocoon_Steps P nest ((new_day, d) # rest) w =
    (let w0 = (if new_day then w\<lparr>w_self := (w_self w)\<lparr>m_StepDone := False\<rparr>\<rparr> else w)
     in case Osmia_InCocoon_Step P d nest w0 of
          Inl err \<Rightarrow> Inl err
        | Inr w' \<Rightarrow> Osmia_InCocoon_Steps P nest rest w')"

subsection \<open>Successive days of development\<close>

text \<open>
  Egg, larva, prepupa and pupa call \<^verbatim>\<open>st_Develop\<close> once a day for as long as it returns
  \<^verbatim>\<open>toOsmias_Develop\<close>. A day of an egg or a larva comes with the state of its nest.
\<close>

fun Osmia_Egg_develop_days ::
  "Osmia_params \<Rightarrow> (day_env \<times> Osmia_Nest) list \<Rightarrow> Osmia_Egg \<Rightarrow> rng
     \<Rightarrow> TTypeOfOsmiaState \<times> Osmia_Egg \<times> rng" where
  "Osmia_Egg_develop_days P [] e g = (toOsmias_Develop, e, g)"
| "Osmia_Egg_develop_days P ((d, nest) # rest) e g =
    (let (s, e', g') = Osmia_Egg_st_Develop P d nest e g
     in if s = toOsmias_Develop then Osmia_Egg_develop_days P rest e' g' else (s, e', g'))"

fun Osmia_Larva_develop_days ::
  "Osmia_params \<Rightarrow> (day_env \<times> Osmia_Nest) list \<Rightarrow> Osmia_Larva \<Rightarrow> rng
     \<Rightarrow> TTypeOfOsmiaState \<times> Osmia_Larva \<times> rng" where
  "Osmia_Larva_develop_days P [] e g = (toOsmias_Develop, e, g)"
| "Osmia_Larva_develop_days P ((d, nest) # rest) e g =
    (let (s, e', g') = Osmia_Larva_st_Develop P d nest e g
     in if s = toOsmias_Develop then Osmia_Larva_develop_days P rest e' g' else (s, e', g'))"

fun Osmia_Prepupa_develop_days ::
  "Osmia_params \<Rightarrow> day_env list \<Rightarrow> Osmia_Prepupa \<Rightarrow> rng
     \<Rightarrow> TTypeOfOsmiaState \<times> Osmia_Prepupa \<times> rng" where
  "Osmia_Prepupa_develop_days P [] e g = (toOsmias_Develop, e, g)"
| "Osmia_Prepupa_develop_days P (d # rest) e g =
    (let (s, e', g') = Osmia_Prepupa_st_Develop P d e g
     in if s = toOsmias_Develop then Osmia_Prepupa_develop_days P rest e' g' else (s, e', g'))"

fun Osmia_Pupa_develop_days ::
  "Osmia_params \<Rightarrow> day_env list \<Rightarrow> Osmia_Pupa \<Rightarrow> rng
     \<Rightarrow> TTypeOfOsmiaState \<times> Osmia_Pupa \<times> rng" where
  "Osmia_Pupa_develop_days P [] e g = (toOsmias_Develop, e, g)"
| "Osmia_Pupa_develop_days P (d # rest) e g =
    (let (s, e', g') = Osmia_Pupa_st_Develop P d e g
     in if s = toOsmias_Develop then Osmia_Pupa_develop_days P rest e' g' else (s, e', g'))"

subsection \<open>The accessors of the accumulator\<close>

text \<open>
  \<^verbatim>\<open>Osmia_Egg::GetAgeDegrees\<close> returns the \<^verbatim>\<open>double\<close> member; \<^verbatim>\<open>Osmia_Egg::SetAgeDegrees\<close>
  takes an \<^verbatim>\<open>unsigned\<close> and stores it in the member.
\<close>

definition GetAgeDegrees :: "'a Osmia_Egg_scheme \<Rightarrow> real" where
  "GetAgeDegrees e = m_AgeDegrees e"

definition SetAgeDegrees :: "32 word \<Rightarrow> 'a Osmia_Egg_scheme \<Rightarrow> 'a Osmia_Egg_scheme" where
  "SetAgeDegrees a_agedegrees e = e\<lparr>m_AgeDegrees := real (unat a_agedegrees)\<rparr>"

text \<open>
  A call \<^verbatim>\<open>SetAgeDegrees(v)\<close> with a \<^verbatim>\<open>double\<close> argument converts \<open>v\<close> to \<^verbatim>\<open>unsigned\<close> first.
  The language drops the fraction and defines the result only if the value left fits the
  type; \<open>None\<close> stands for the undefined conversion.
\<close>

definition double_to_unsigned :: "real \<Rightarrow> 32 word option" where
  "double_to_unsigned v =
    (let t = double_to_int v
     in if 0 \<le> t \<and> t < 2 ^ 32 then Some (word_of_int t) else None)"

definition SetAgeDegrees_double ::
  "real \<Rightarrow> 'a Osmia_Egg_scheme \<Rightarrow> 'a Osmia_Egg_scheme option" where
  "SetAgeDegrees_double v e =
    (case double_to_unsigned v of None \<Rightarrow> None | Some a \<Rightarrow> Some (SetAgeDegrees a e))"

subsection \<open>Concrete individuals and days\<close>

text \<open>
  The parameters of the default configuration, a generator that returns the same pair of
  values at every call, and one individual of each kind built by its constructor: a female,
  unparasitised, with a provision mass of 100 mg.
\<close>

definition default_params :: Osmia_params where
  "default_params = SetParameterValues default_cfg"

definition rng_const :: "real \<Rightarrow> int \<Rightarrow> rng" where
  "rng_const u r = \<lparr>rand_uni = (\<lambda>_. u), random_int = (\<lambda>_ _. r),
                    uni_calls = 0, int_calls = 0\<rparr>"

definition example_data :: struct_Osmia where
  "example_data =
    \<lparr> sO_x = 10, sO_y = 20, sO_age = 0, sO_sex = True, sO_nest = Some 0,
      sO_parasitised = topara_Unparasitised, sO_mass = 100,
      sO_pest_mortality = 0, sO_overwintering_degree_days = 0 \<rparr>"

definition example_egg :: Osmia_Egg where
  "example_egg = Osmia_Egg_ctor example_data"

definition example_larva :: Osmia_Larva where
  "example_larva = Osmia_Larva_ctor example_data"

definition example_prepupa :: Osmia_Prepupa where
  "example_prepupa = fst (Osmia_Prepupa_ctor default_params example_data (rng_const (1 / 2) 50))"

definition example_pupa :: Osmia_Pupa where
  "example_pupa = fst (Osmia_Pupa_ctor default_params example_data (rng_const (1 / 2) 50))"

definition example_cocoon :: Osmia_InCocoon where
  "example_cocoon = fst (Osmia_InCocoon_ctor default_params example_data (rng_const (1 / 2) 50))"

definition example_nest :: "bool \<Rightarrow> Osmia_Nest" where
  "example_nest is_open = \<lparr>m_isOpen = is_open, m_aspectdelay = 0\<rparr>"

text \<open>
  A day with the given temperature, day number and season flags; March starts on day 59
  and June on day 151 of the framework's calendar, and the prepupal rate is the one
  \<^verbatim>\<open>DoFirst\<close> computes from the temperature.
\<close>

definition example_day :: "real \<Rightarrow> int \<Rightarrow> bool \<Rightarrow> bool \<Rightarrow> day_env" where
  "example_day temp day end_pre_winter over_winter_end =
    \<lparr> m_TempToday = temp, SupplyTemp = temp, m_DayInYear = day, March = 59, June = 151,
      m_PreWinteringEndFlag = end_pre_winter, m_OverWinterEndFlag = over_winter_end,
      m_PrePupalDevelDaysToday = DoFirst_PrePupalDevelDaysToday cfg_OsmiaPrepupalDevelRates temp,
      emergenceday_Geti = 0 \<rparr>"

definition example_world :: InCocoon_world where
  "example_world =
    \<lparr> w_self = example_cocoon, w_created = [], w_cell_removed = False,
      w_rng = rng_const (1 / 2) 50 \<rparr>"

text \<open>
  A short life in the cocoon: a warm day before winter (two calls: the first leaves the
  initial state), a day of deep winter, the first day of March, and three spring days.
  With the constant of the emergence counter set to 2 the counter starts at 1.
\<close>

definition example_life :: "(bool \<times> day_env) list" where
  "example_life =
    [(True, example_day 20 250 False False),
     (False, example_day 20 250 False False),
     (True, example_day 3 330 True False),
     (True, example_day 6 60 True True),
     (True, example_day 6 61 True True),
     (True, example_day 6 62 True True)]"

definition short_count_params :: Osmia_params where
  "short_count_params = default_params\<lparr>m_OsmiaInCocoonEmergCountConst := 2\<rparr>"

subsection \<open>Two predicates on the adult in cocoon\<close>

text \<open>
  The path condition of the call of \<^verbatim>\<open>WinterMortality\<close> in \<^verbatim>\<open>Osmia_InCocoon::st_Develop\<close>:
  both season flags are set, it is not the day after \<^verbatim>\<open>March\<close>, the day is at or above the
  emergence threshold, and the decremented counter is below 1.
\<close>

definition counter_drops_below_one :: "Osmia_params \<Rightarrow> day_env \<Rightarrow> Osmia_InCocoon \<Rightarrow> bool" where
  "counter_drops_below_one P d c \<longleftrightarrow>
     IsEndPreWinter d \<and> IsOverWinterEnd d \<and> m_DayInYear d \<noteq> March d + 1
     \<and> m_TempToday d \<ge> m_OsmiaInCocoonEmergenceTempThreshold P
     \<and> m_emergencecounter c - 1 < 1"

text \<open>
  The invariant of a life that started with \<open>k\<close> calls of \<^verbatim>\<open>g_random_fnc\<close> already made:
  while the cocoon is in its initial or developing state no further call was made; once it
  has left them (next stage, dying, or killed) at most one was.
\<close>

definition drawn_at_most_once :: "nat \<Rightarrow> InCocoon_world \<Rightarrow> bool" where
  "drawn_at_most_once k w \<longleftrightarrow>
     ((m_CurrentOState (w_self w) = toOsmias_InitialState
         \<or> m_CurrentOState (w_self w) = toOsmias_Develop)
        \<and> int_calls (w_rng w) = k)
     \<or> ((m_CurrentOState (w_self w) = toOsmias_NextStage
         \<or> m_CurrentOState (w_self w) = toOsmias_Die
         \<or> m_CurrentStateNo (w_self w) = - 1)
        \<and> int_calls (w_rng w) \<le> k + 1)"

section \<open>Properties\<close>

lemmas example_defs = default_params_def SetParameterValues_def default_cfg_def rng_const_def
  example_data_def example_nest_def example_day_def Osmia_Egg_ctor_def Osmia_Larva_ctor_def
  Osmia_Prepupa_ctor_def Osmia_Pupa_ctor_def Osmia_InCocoon_ctor_def g_rand_uni_fnc_def
  g_random_fnc_def

subsection \<open>Winter mortality\<close>

text \<open>
  C1 says that the winter-mortality test compares a draw with
  \<open>slope * prewinterDD + const\<close> clamped to \<open>[0, 1]\<close>, so that with 150 prewinter
  degree-days, slope 0.05 and constant -4.63 (value 2.87, clamped to 1) the individual dies
  whatever the draw. In the code the value is not clamped and is compared with a draw of
  \<^verbatim>\<open>g_random_fnc(100)\<close>: at 150 degree-days the individual survives the draws 50 and 3 and
  dies at the draw 2, and at 130 degree-days (value 1.87) it survives the draw 2.
\<close>

theorem WinterMortality_150_survives_draw_50:
  "m_OsmiaInCocoonWinterMortSlope default_params * 150
     + m_OsmiaInCocoonWinterMortConst default_params = 287 / 100
   \<and> \<not> fst (Osmia_InCocoon_WinterMortality default_params
            (example_cocoon\<lparr>m_DDPrewinter := 150\<rparr>) (rng_const (1 / 2) 50))
   \<and> \<not> fst (Osmia_InCocoon_WinterMortality default_params
            (example_cocoon\<lparr>m_DDPrewinter := 150\<rparr>) (rng_const (1 / 2) 3))
   \<and> fst (Osmia_InCocoon_WinterMortality default_params
            (example_cocoon\<lparr>m_DDPrewinter := 150\<rparr>) (rng_const (1 / 2) 2))
   \<and> \<not> fst (Osmia_InCocoon_WinterMortality default_params
            (example_cocoon\<lparr>m_DDPrewinter := 130\<rparr>) (rng_const (1 / 2) 2))"
  by (simp add: Osmia_InCocoon_WinterMortality_def example_cocoon_def example_defs)

subsection \<open>Development in an open nest\<close>

text \<open>
  C2 says that an egg or a larva whose nest is still open does not develop: the degree-day
  accumulator is the same after the day's step. In the code the open nest only skips the
  mortality draw. At 20 degrees the egg of an open nest gains 20 degree-days (threshold 0)
  and the larva 15.5 (threshold 4.5).
\<close>

theorem open_nest_cells_accumulate:
  "GetIsOpen (example_nest True)
   \<and> Osmia_Egg_st_Develop default_params (example_day 20 150 False False) (example_nest True)
        example_egg g
      = (toOsmias_Develop, example_egg\<lparr>m_Age := 1, m_AgeDegrees := 20\<rparr>, g)
   \<and> Osmia_Larva_st_Develop default_params (example_day 20 150 False False) (example_nest True)
        example_larva g
      = (toOsmias_Develop, example_larva\<lparr>m_Age := 1, m_AgeDegrees := 31 / 2\<rparr>, g)"
  by (simp add: Osmia_Egg_st_Develop_def Osmia_Larva_st_Develop_def GetIsOpen_def
        example_egg_def example_larva_def example_defs)

subsection \<open>The counter of the prepupa\<close>

lemma PrePupalDevelDaysToday_22:
  "DoFirst_PrePupalDevelDaysToday cfg_OsmiaPrepupalDevelRates 22 = 1"
  by (simp add: DoFirst_PrePupalDevelDaysToday_def cfg_OsmiaPrepupalDevelRates_def)

text \<open>
  C3 says that one step of a surviving prepupa adds exactly the prepupal rate of the day
  to its counter. In the code the comparison with the target increments the counter once
  more: on a day of 22 degrees the rate is 1, and a prepupa with counter 0 and target 45
  ends the step with counter 2.
\<close>

theorem prepupa_counter_gains_rate_plus_one:
  "GetPrePupalDevelDays (example_day 22 200 False False) = 1
   \<and> m_AgeDegrees example_prepupa = 0
   \<and> m_myOsmiaPrepupaDevelTotalDays example_prepupa = 45
   \<and> fst (Osmia_Prepupa_st_Develop default_params (example_day 22 200 False False)
         example_prepupa (rng_const (1 / 2) 50)) = toOsmias_Develop
   \<and> m_AgeDegrees (fst (snd (Osmia_Prepupa_st_Develop default_params
         (example_day 22 200 False False) example_prepupa (rng_const (1 / 2) 50)))) = 2"
  by (simp add: Osmia_Prepupa_st_Develop_def Osmia_Prepupa_DailyMortality_def
        GetPrePupalDevelDays_def PrePupalDevelDaysToday_22 example_prepupa_def example_defs
        split_beta)

subsection \<open>The late-season cutoff\<close>

text \<open>
  C4 says that a cocoon whose counter has not reached zero at the late-season cutoff is
  forced to die whatever the temperature of that day. In the code the test of the day
  before June is reached on warm days only: on day 150 with counter 10 the cocoon dies at 5
  degrees (the emergence threshold) and stays in development at 4 degrees. After that cold
  day it is stepped on day 151 and, the flags being reset, on day 152: it is still
  developing in its cell, with counter 9.
\<close>

theorem cutoff_day_below_threshold_survives:
  "m_DayInYear (example_day 4 150 True True) = June (example_day 4 150 True True) - 1
   \<and> fst (Osmia_InCocoon_st_Develop default_params (example_day 4 150 True True)
         (example_nest False) (example_cocoon\<lparr>m_emergencecounter := 10\<rparr>) g) = toOsmias_Develop
   \<and> fst (Osmia_InCocoon_st_Develop default_params (example_day 5 150 True True)
         (example_nest False) (example_cocoon\<lparr>m_emergencecounter := 10\<rparr>) g) = toOsmias_Die
   \<and> (case Osmia_InCocoon_Steps default_params (example_nest False)
           [(True, example_day 4 150 True True),
            (True, example_day 10 151 True True),
            (True, example_day 10 152 False False)]
           \<lparr>w_self = example_cocoon\<lparr>m_CurrentOState := toOsmias_Develop,
                                     m_emergencecounter := 10\<rparr>,
             w_created = [], w_cell_removed = False, w_rng = rng_const (1 / 2) 50\<rparr> of
         Inl _ \<Rightarrow> False
       | Inr w' \<Rightarrow> m_CurrentOState (w_self w') = toOsmias_Develop
            \<and> m_CurrentStateNo (w_self w') \<noteq> - 1 \<and> \<not> w_cell_removed w'
            \<and> m_emergencecounter (w_self w') = 9)"
  by (simp add: Osmia_InCocoon_Step_def Osmia_InCocoon_st_Develop_def
        IsEndPreWinter_def IsOverWinterEnd_def example_cocoon_def example_defs Let_def
        split_beta)

subsection \<open>The degree-day accumulator\<close>

lemma Egg_step_delta:
  "Osmia_Egg_st_Develop P d nest e g = (s, e', g') \<Longrightarrow>
   m_AgeDegrees e' = (if s = toOsmias_Die then m_AgeDegrees e
                      else m_AgeDegrees e + max 0 (m_TempToday d - m_OsmiaEggDevelThreshold P))"
  by (auto simp: Osmia_Egg_st_Develop_def Let_def split_beta split: if_splits)

lemma Larva_step_delta:
  "Osmia_Larva_st_Develop P d nest e g = (s, e', g') \<Longrightarrow>
   m_AgeDegrees e' = (if s = toOsmias_Die then m_AgeDegrees e
                      else m_AgeDegrees e + max 0 (SupplyTemp d - m_OsmiaLarvaDevelThreshold P))"
  by (auto simp: Osmia_Larva_st_Develop_def Let_def split_beta split: if_splits)

lemma Pupa_step_delta:
  "Osmia_Pupa_st_Develop P d e g = (s, e', g') \<Longrightarrow>
   m_AgeDegrees e' = (if s = toOsmias_Die then m_AgeDegrees e
                      else m_AgeDegrees e + max 0 (SupplyTemp d - m_OsmiaPupaDevelThreshold P))"
  by (auto simp: Osmia_Pupa_st_Develop_def Let_def split_beta split: if_splits)

lemma Egg_days_mono:
  "m_AgeDegrees e \<le> m_AgeDegrees (fst (snd (Osmia_Egg_develop_days P ds e g)))"
proof (induction ds arbitrary: e g)
  case Nil
  show ?case by simp
next
  case (Cons a ds)
  obtain d nest where a: "a = (d, nest)" by (cases a)
  obtain s e' g' where st: "Osmia_Egg_st_Develop P d nest e g = (s, e', g')"
    by (cases "Osmia_Egg_st_Develop P d nest e g")
  have step: "m_AgeDegrees e \<le> m_AgeDegrees e'"
    using Egg_step_delta [OF st] by (simp split: if_splits)
  show ?case
  proof (cases "s = toOsmias_Develop")
    case True
    have "m_AgeDegrees e' \<le> m_AgeDegrees (fst (snd (Osmia_Egg_develop_days P ds e' g')))"
      by (rule Cons.IH)
    with step True a st show ?thesis by simp
  next
    case False
    with step a st show ?thesis by simp
  qed
qed

lemma Larva_days_mono:
  "m_AgeDegrees e \<le> m_AgeDegrees (fst (snd (Osmia_Larva_develop_days P ds e g)))"
proof (induction ds arbitrary: e g)
  case Nil
  show ?case by simp
next
  case (Cons a ds)
  obtain d nest where a: "a = (d, nest)" by (cases a)
  obtain s e' g' where st: "Osmia_Larva_st_Develop P d nest e g = (s, e', g')"
    by (cases "Osmia_Larva_st_Develop P d nest e g")
  have step: "m_AgeDegrees e \<le> m_AgeDegrees e'"
    using Larva_step_delta [OF st] by (simp split: if_splits)
  show ?case
  proof (cases "s = toOsmias_Develop")
    case True
    have "m_AgeDegrees e' \<le> m_AgeDegrees (fst (snd (Osmia_Larva_develop_days P ds e' g')))"
      by (rule Cons.IH)
    with step True a st show ?thesis by simp
  next
    case False
    with step a st show ?thesis by simp
  qed
qed

lemma Pupa_days_mono:
  "m_AgeDegrees e \<le> m_AgeDegrees (fst (snd (Osmia_Pupa_develop_days P ds e g)))"
proof (induction ds arbitrary: e g)
  case Nil
  show ?case by simp
next
  case (Cons d ds)
  obtain s e' g' where st: "Osmia_Pupa_st_Develop P d e g = (s, e', g')"
    by (cases "Osmia_Pupa_st_Develop P d e g")
  have step: "m_AgeDegrees e \<le> m_AgeDegrees e'"
    using Pupa_step_delta [OF st] by (simp split: if_splits)
  show ?case
  proof (cases "s = toOsmias_Develop")
    case True
    have "m_AgeDegrees e' \<le> m_AgeDegrees (fst (snd (Osmia_Pupa_develop_days P ds e' g')))"
      by (rule Cons.IH)
    with step True st show ?thesis by simp
  next
    case False
    with step st show ?thesis by simp
  qed
qed

text \<open>
  C5: over any sequence of days the degree-day accumulator of an egg, a larva or a pupa
  never decreases; a step that does not end in death adds exactly
  \<open>max 0 (temperature - threshold)\<close>, and a day at or below the threshold adds nothing.
  (A step that ends in death returns before the accumulation.)
\<close>

theorem degree_day_accumulator_monotone:
  "m_AgeDegrees e \<le> m_AgeDegrees (fst (snd (Osmia_Egg_develop_days P nds e g)))
   \<and> m_AgeDegrees l \<le> m_AgeDegrees (fst (snd (Osmia_Larva_develop_days P nds l g)))
   \<and> m_AgeDegrees p \<le> m_AgeDegrees (fst (snd (Osmia_Pupa_develop_days P ds p g)))
   \<and> (fst (Osmia_Egg_st_Develop P d nest e g) \<noteq> toOsmias_Die \<longrightarrow>
        m_AgeDegrees (fst (snd (Osmia_Egg_st_Develop P d nest e g)))
          = m_AgeDegrees e + max 0 (m_TempToday d - m_OsmiaEggDevelThreshold P))
   \<and> (fst (Osmia_Larva_st_Develop P d nest l g) \<noteq> toOsmias_Die \<longrightarrow>
        m_AgeDegrees (fst (snd (Osmia_Larva_st_Develop P d nest l g)))
          = m_AgeDegrees l + max 0 (SupplyTemp d - m_OsmiaLarvaDevelThreshold P))
   \<and> (fst (Osmia_Pupa_st_Develop P d p g) \<noteq> toOsmias_Die \<longrightarrow>
        m_AgeDegrees (fst (snd (Osmia_Pupa_st_Develop P d p g)))
          = m_AgeDegrees p + max 0 (SupplyTemp d - m_OsmiaPupaDevelThreshold P))
   \<and> (m_TempToday d \<le> m_OsmiaEggDevelThreshold P \<longrightarrow>
        m_AgeDegrees (fst (snd (Osmia_Egg_st_Develop P d nest e g))) = m_AgeDegrees e)
   \<and> (SupplyTemp d \<le> m_OsmiaLarvaDevelThreshold P \<longrightarrow>
        m_AgeDegrees (fst (snd (Osmia_Larva_st_Develop P d nest l g))) = m_AgeDegrees l)
   \<and> (SupplyTemp d \<le> m_OsmiaPupaDevelThreshold P \<longrightarrow>
        m_AgeDegrees (fst (snd (Osmia_Pupa_st_Develop P d p g))) = m_AgeDegrees p)"
proof -
  obtain s1 e1 g1 where 1: "Osmia_Egg_st_Develop P d nest e g = (s1, e1, g1)"
    by (cases "Osmia_Egg_st_Develop P d nest e g")
  obtain s2 e2 g2 where 2: "Osmia_Larva_st_Develop P d nest l g = (s2, e2, g2)"
    by (cases "Osmia_Larva_st_Develop P d nest l g")
  obtain s3 e3 g3 where 3: "Osmia_Pupa_st_Develop P d p g = (s3, e3, g3)"
    by (cases "Osmia_Pupa_st_Develop P d p g")
  show ?thesis
    using Egg_step_delta [OF 1] Larva_step_delta [OF 2] Pupa_step_delta [OF 3]
      Egg_days_mono [of e P nds g] Larva_days_mono [of l P nds g] Pupa_days_mono [of p P ds g]
    by (simp add: 1 2 3 split: if_splits)
qed

theorem degree_day_accumulator_monotone_witness:
  "fst (Osmia_Egg_st_Develop default_params (example_day 20 150 False False) (example_nest False)
          example_egg (rng_const (1 / 2) 50)) \<noteq> toOsmias_Die
   \<and> m_AgeDegrees (fst (snd (Osmia_Egg_st_Develop default_params (example_day 20 150 False False)
          (example_nest False) example_egg (rng_const (1 / 2) 50)))) = 20
   \<and> fst (Osmia_Larva_st_Develop default_params (example_day 20 150 False False)
          (example_nest False) example_larva (rng_const (1 / 2) 50)) \<noteq> toOsmias_Die
   \<and> m_AgeDegrees (fst (snd (Osmia_Larva_st_Develop default_params
          (example_day 20 150 False False) (example_nest False) example_larva
          (rng_const (1 / 2) 50)))) = 31 / 2
   \<and> fst (Osmia_Pupa_st_Develop default_params (example_day 20 150 False False)
          example_pupa (rng_const (1 / 2) 50)) \<noteq> toOsmias_Die
   \<and> m_AgeDegrees (fst (snd (Osmia_Pupa_st_Develop default_params
          (example_day 20 150 False False) example_pupa (rng_const (1 / 2) 50)))) = 189 / 10
   \<and> m_TempToday (example_day (- 5) 20 False False) \<le> m_OsmiaEggDevelThreshold default_params
   \<and> SupplyTemp (example_day (- 5) 20 False False) \<le> m_OsmiaLarvaDevelThreshold default_params
   \<and> SupplyTemp (example_day (- 5) 20 False False) \<le> m_OsmiaPupaDevelThreshold default_params
   \<and> m_AgeDegrees (fst (snd (Osmia_Egg_st_Develop default_params
          (example_day (- 5) 20 False False) (example_nest False) example_egg
          (rng_const (1 / 2) 50)))) = 0
   \<and> 0 \<le> m_AgeDegrees (fst (snd (Osmia_Egg_develop_days default_params
          [(example_day 20 150 False False, example_nest False),
           (example_day (- 5) 151 False False, example_nest False)]
          example_egg (rng_const (1 / 2) 50))))"
  using degree_day_accumulator_monotone
          [of example_egg default_params
              "[(example_day 20 150 False False, example_nest False),
                (example_day (- 5) 151 False False, example_nest False)]"
              "rng_const (1 / 2) 50" example_larva example_pupa "[]"
              "example_day 20 150 False False" "example_nest False"]
        degree_day_accumulator_monotone
          [of example_egg default_params "[]" "rng_const (1 / 2) 50" example_larva example_pupa "[]"
              "example_day (- 5) 20 False False" "example_nest False"]
  by (simp add: Osmia_Egg_st_Develop_def Osmia_Larva_st_Develop_def Osmia_Pupa_st_Develop_def
        Osmia_Egg_DailyMortality_def Osmia_Larva_DailyMortality_def
        Osmia_Pupa_DailyMortality_def GetIsOpen_def example_egg_def example_larva_def
        example_pupa_def example_defs Let_def split_beta)

subsection \<open>The individual target of the prepupa\<close>

lemma Prepupa_step_target:
  "m_myOsmiaPrepupaDevelTotalDays (fst (snd (Osmia_Prepupa_st_Develop P d e g)))
     = m_myOsmiaPrepupaDevelTotalDays e"
  by (simp add: Osmia_Prepupa_st_Develop_def Let_def split_beta)

lemma Prepupa_days_target:
  "m_myOsmiaPrepupaDevelTotalDays (fst (snd (Osmia_Prepupa_develop_days P ds e g)))
     = m_myOsmiaPrepupaDevelTotalDays e"
proof (induction ds arbitrary: e g)
  case Nil
  show ?case by simp
next
  case (Cons d ds)
  obtain s e' g' where st: "Osmia_Prepupa_st_Develop P d e g = (s, e', g')"
    by (cases "Osmia_Prepupa_st_Develop P d e g")
  have keep: "m_myOsmiaPrepupaDevelTotalDays e' = m_myOsmiaPrepupaDevelTotalDays e"
    using Prepupa_step_target [of P d e g] by (simp add: st)
  show ?case
    using Cons.IH [of e' g'] keep by (simp add: st)
qed

lemma Prepupa_ctor_target:
  "m_myOsmiaPrepupaDevelTotalDays (fst (Osmia_Prepupa_ctor (SetParameterValues cfg) data g))
     = 9 / 10 * cfg_OsmiaPrepupaDevelTotalDays cfg
       + rand_uni g (uni_calls g)
         * (11 / 10 * cfg_OsmiaPrepupaDevelTotalDays cfg
            - 9 / 10 * cfg_OsmiaPrepupaDevelTotalDays cfg)"
  by (simp add: Osmia_Prepupa_ctor_def SetParameterValues_def g_rand_uni_fnc_def Let_def
        split_beta algebra_simps)

lemma Prepupa_ctor_calls:
  "uni_calls (snd (Osmia_Prepupa_ctor P data g)) = uni_calls g + 1"
  by (simp add: Osmia_Prepupa_ctor_def g_rand_uni_fnc_def Let_def split_beta)

lemma interval_reached:
  fixes b t :: real
  assumes "0 \<le> b" "9 / 10 * b \<le> t" "t \<le> 11 / 10 * b"
  shows "\<exists>u. 0 \<le> u \<and> u \<le> 1 \<and> 9 / 10 * b + u * (11 / 10 * b - 9 / 10 * b) = t"
proof (cases "b = 0")
  case True
  with assms show ?thesis by (intro exI [of _ 0]) simp
next
  case False
  with assms have pos: "0 < b" by simp
  define u where "u = (t - 9 / 10 * b) / (2 / 10 * b)"
  have ub: "u * (2 / 10 * b) = t - 9 / 10 * b"
    using pos by (simp add: u_def)
  have "0 \<le> u" using assms pos by (simp add: u_def)
  moreover have "u \<le> 1" using assms pos by (simp add: u_def field_simps)
  moreover have "9 / 10 * b + u * (11 / 10 * b - 9 / 10 * b) = t"
  proof -
    have "11 / 10 * b - 9 / 10 * b = 2 / 10 * b" by simp
    then have "9 / 10 * b + u * (11 / 10 * b - 9 / 10 * b) = 9 / 10 * b + u * (2 / 10 * b)"
      by (simp only:)
    also have "\<dots> = t" by (simp only: ub)
    finally show ?thesis .
  qed
  ultimately show ?thesis by blast
qed


lemma share_le_width:
  fixes u b :: real
  assumes "0 \<le> u" "u \<le> 1" "0 \<le> b"
  shows "u * (2 / 10 * b) \<le> 1 * (2 / 10 * b)"
  using assms by (intro mult_right_mono) simp_all

lemma lower_end_le:
  fixes u b t :: real
  assumes eq2: "t = 9 / 10 * b + u * (2 / 10 * b)" and nonneg: "0 \<le> u * (2 / 10 * b)"
  shows "9 / 10 * b \<le> t"
  unfolding eq2 using nonneg by simp

lemma le_upper_end:
  fixes u b t :: real
  assumes eq2: "t = 9 / 10 * b + u * (2 / 10 * b)" and le: "u * (2 / 10 * b) \<le> 1 * (2 / 10 * b)"
  shows "t \<le> 11 / 10 * b"
  unfolding eq2 using le by (simp add: mult.commute)


lemma Prepupa_ctor_bounds:
  assumes "0 \<le> rand_uni g (uni_calls g)" and "rand_uni g (uni_calls g) \<le> 1"
    and "0 \<le> cfg_OsmiaPrepupaDevelTotalDays cfg"
  shows "9 / 10 * cfg_OsmiaPrepupaDevelTotalDays cfg
           \<le> m_myOsmiaPrepupaDevelTotalDays
               (fst (Osmia_Prepupa_ctor (SetParameterValues cfg) data g))"
    and "m_myOsmiaPrepupaDevelTotalDays
               (fst (Osmia_Prepupa_ctor (SetParameterValues cfg) data g))
           \<le> 11 / 10 * cfg_OsmiaPrepupaDevelTotalDays cfg"
proof -
  define b where "b = cfg_OsmiaPrepupaDevelTotalDays cfg"
  define u where "u = rand_uni g (uni_calls g)"
  define t where "t = m_myOsmiaPrepupaDevelTotalDays
              (fst (Osmia_Prepupa_ctor (SetParameterValues cfg) data g))"
  have eq: "t = 9 / 10 * b + u * (11 / 10 * b - 9 / 10 * b)"
    unfolding t_def b_def u_def by (rule Prepupa_ctor_target)
  have width: "11 / 10 * b - 9 / 10 * b = 2 / 10 * b" by simp
  have eq2: "t = 9 / 10 * b + u * (2 / 10 * b)"
    using eq by (simp only: width)
  have ub: "0 \<le> u" "u \<le> 1" "0 \<le> b"
    using assms by (simp_all add: u_def b_def)
  have nonneg: "0 \<le> u * (2 / 10 * b)" using ub by simp
  have "9 / 10 * b \<le> t" by (rule lower_end_le [OF eq2 nonneg])
  moreover have "t \<le> 11 / 10 * b" by (rule le_upper_end [OF eq2 share_le_width [OF ub]])
  ultimately show "9 / 10 * cfg_OsmiaPrepupaDevelTotalDays cfg
           \<le> m_myOsmiaPrepupaDevelTotalDays
               (fst (Osmia_Prepupa_ctor (SetParameterValues cfg) data g))"
    and "m_myOsmiaPrepupaDevelTotalDays
               (fst (Osmia_Prepupa_ctor (SetParameterValues cfg) data g))
           \<le> 11 / 10 * cfg_OsmiaPrepupaDevelTotalDays cfg"
    by (simp_all only: t_def b_def)
qed


lemma Prepupa_ctor_onto:
  assumes "0 \<le> cfg_OsmiaPrepupaDevelTotalDays cfg"
    and "9 / 10 * cfg_OsmiaPrepupaDevelTotalDays cfg \<le> t"
    and "t \<le> 11 / 10 * cfg_OsmiaPrepupaDevelTotalDays cfg"
  shows "\<exists>u. 0 \<le> u \<and> u \<le> 1
             \<and> m_myOsmiaPrepupaDevelTotalDays
                 (fst (Osmia_Prepupa_ctor (SetParameterValues cfg) data
                        (g\<lparr>rand_uni := \<lambda>_. u\<rparr>))) = t"
proof -
  obtain u where u: "0 \<le> u" "u \<le> 1"
      "9 / 10 * cfg_OsmiaPrepupaDevelTotalDays cfg
         + u * (11 / 10 * cfg_OsmiaPrepupaDevelTotalDays cfg
                - 9 / 10 * cfg_OsmiaPrepupaDevelTotalDays cfg) = t"
    using interval_reached [OF assms] by blast
  define g1 where "g1 = g\<lparr>rand_uni := \<lambda>_. u\<rparr>"
  have draw: "rand_uni g1 (uni_calls g1) = u"
    by (simp add: g1_def)
  have "m_myOsmiaPrepupaDevelTotalDays (fst (Osmia_Prepupa_ctor (SetParameterValues cfg) data g1))
          = 9 / 10 * cfg_OsmiaPrepupaDevelTotalDays cfg
            + u * (11 / 10 * cfg_OsmiaPrepupaDevelTotalDays cfg
                   - 9 / 10 * cfg_OsmiaPrepupaDevelTotalDays cfg)"
    using Prepupa_ctor_target [of cfg data g1] by (simp only: draw)
  also have "\<dots> = t" by (rule u(3))
  finally have "m_myOsmiaPrepupaDevelTotalDays
                  (fst (Osmia_Prepupa_ctor (SetParameterValues cfg) data g1)) = t" .
  with u(1,2) show ?thesis unfolding g1_def by blast
qed

text \<open>
  C6: the constructor of a prepupa makes one draw \<open>u\<close> of the uniform generator and sets
  the target to the point of \<open>[0.9 * base, 1.1 * base]\<close> at the share \<open>u\<close> of the way from the
  lower to the upper end, so that the target lies in that interval and every point of the
  interval is the target of some draw; no later day of prepupal development changes it.
  The draw is taken in \<open>[0, 1]\<close> and the base number of days is not negative.
\<close>

theorem prepupa_target_drawn_once_within_ten_percent:
  assumes "0 \<le> rand_uni g (uni_calls g)" and "rand_uni g (uni_calls g) \<le> 1"
    and "0 \<le> cfg_OsmiaPrepupaDevelTotalDays cfg"
  shows "9 / 10 * cfg_OsmiaPrepupaDevelTotalDays cfg
           \<le> m_myOsmiaPrepupaDevelTotalDays
               (fst (Osmia_Prepupa_ctor (SetParameterValues cfg) data g))
    \<and> m_myOsmiaPrepupaDevelTotalDays
               (fst (Osmia_Prepupa_ctor (SetParameterValues cfg) data g))
           \<le> 11 / 10 * cfg_OsmiaPrepupaDevelTotalDays cfg
    \<and> m_myOsmiaPrepupaDevelTotalDays
               (fst (Osmia_Prepupa_ctor (SetParameterValues cfg) data g))
         = 9 / 10 * cfg_OsmiaPrepupaDevelTotalDays cfg
           + rand_uni g (uni_calls g)
             * (11 / 10 * cfg_OsmiaPrepupaDevelTotalDays cfg
                - 9 / 10 * cfg_OsmiaPrepupaDevelTotalDays cfg)
    \<and> uni_calls (snd (Osmia_Prepupa_ctor (SetParameterValues cfg) data g)) = uni_calls g + 1
    \<and> (\<forall>t. 9 / 10 * cfg_OsmiaPrepupaDevelTotalDays cfg \<le> t
             \<and> t \<le> 11 / 10 * cfg_OsmiaPrepupaDevelTotalDays cfg \<longrightarrow>
          (\<exists>u. 0 \<le> u \<and> u \<le> 1
             \<and> m_myOsmiaPrepupaDevelTotalDays
                 (fst (Osmia_Prepupa_ctor (SetParameterValues cfg) data
                        (g\<lparr>rand_uni := \<lambda>_. u\<rparr>))) = t))
    \<and> (\<forall>ds g2. m_myOsmiaPrepupaDevelTotalDays
          (fst (snd (Osmia_Prepupa_develop_days (SetParameterValues cfg) ds
             (fst (Osmia_Prepupa_ctor (SetParameterValues cfg) data g)) g2)))
         = m_myOsmiaPrepupaDevelTotalDays
             (fst (Osmia_Prepupa_ctor (SetParameterValues cfg) data g)))"
proof (intro conjI allI impI)
  show "9 / 10 * cfg_OsmiaPrepupaDevelTotalDays cfg
           \<le> m_myOsmiaPrepupaDevelTotalDays
               (fst (Osmia_Prepupa_ctor (SetParameterValues cfg) data g))"
    by (rule Prepupa_ctor_bounds(1) [OF assms])
  show "m_myOsmiaPrepupaDevelTotalDays
               (fst (Osmia_Prepupa_ctor (SetParameterValues cfg) data g))
           \<le> 11 / 10 * cfg_OsmiaPrepupaDevelTotalDays cfg"
    by (rule Prepupa_ctor_bounds(2) [OF assms])
  show "m_myOsmiaPrepupaDevelTotalDays
               (fst (Osmia_Prepupa_ctor (SetParameterValues cfg) data g))
         = 9 / 10 * cfg_OsmiaPrepupaDevelTotalDays cfg
           + rand_uni g (uni_calls g)
             * (11 / 10 * cfg_OsmiaPrepupaDevelTotalDays cfg
                - 9 / 10 * cfg_OsmiaPrepupaDevelTotalDays cfg)"
    by (rule Prepupa_ctor_target)
  show "uni_calls (snd (Osmia_Prepupa_ctor (SetParameterValues cfg) data g)) = uni_calls g + 1"
    by (rule Prepupa_ctor_calls)
  show "\<exists>u. 0 \<le> u \<and> u \<le> 1
             \<and> m_myOsmiaPrepupaDevelTotalDays
                 (fst (Osmia_Prepupa_ctor (SetParameterValues cfg) data
                        (g\<lparr>rand_uni := \<lambda>_. u\<rparr>))) = t"
    if "9 / 10 * cfg_OsmiaPrepupaDevelTotalDays cfg \<le> t
             \<and> t \<le> 11 / 10 * cfg_OsmiaPrepupaDevelTotalDays cfg" for t
    using that Prepupa_ctor_onto [OF assms(3), of t data g] by blast
  show "m_myOsmiaPrepupaDevelTotalDays
          (fst (snd (Osmia_Prepupa_develop_days (SetParameterValues cfg) ds
             (fst (Osmia_Prepupa_ctor (SetParameterValues cfg) data g)) g2)))
         = m_myOsmiaPrepupaDevelTotalDays
             (fst (Osmia_Prepupa_ctor (SetParameterValues cfg) data g))" for ds g2
    by (rule Prepupa_days_target)
qed

theorem prepupa_target_drawn_once_within_ten_percent_witness:
  "0 \<le> rand_uni (rng_const (1 / 2) 50) (uni_calls (rng_const (1 / 2) 50))
   \<and> rand_uni (rng_const (1 / 2) 50) (uni_calls (rng_const (1 / 2) 50)) \<le> 1
   \<and> 0 \<le> cfg_OsmiaPrepupaDevelTotalDays default_cfg
   \<and> m_myOsmiaPrepupaDevelTotalDays example_prepupa = 45
   \<and> 9 / 10 * cfg_OsmiaPrepupaDevelTotalDays default_cfg
        \<le> m_myOsmiaPrepupaDevelTotalDays example_prepupa
   \<and> m_myOsmiaPrepupaDevelTotalDays example_prepupa
        \<le> 11 / 10 * cfg_OsmiaPrepupaDevelTotalDays default_cfg
   \<and> uni_calls (snd (Osmia_Prepupa_ctor default_params example_data (rng_const (1 / 2) 50))) = 1"
proof -
  have h1: "0 \<le> rand_uni (rng_const (1 / 2) 50) (uni_calls (rng_const (1 / 2) 50))"
    by (simp add: rng_const_def)
  have h2: "rand_uni (rng_const (1 / 2) 50) (uni_calls (rng_const (1 / 2) 50)) \<le> 1"
    by (simp add: rng_const_def)
  have h3: "0 \<le> cfg_OsmiaPrepupaDevelTotalDays default_cfg"
    by (simp add: default_cfg_def)
  note inst = prepupa_target_drawn_once_within_ten_percent [OF h1 h2 h3, of example_data]
  have lo: "9 / 10 * cfg_OsmiaPrepupaDevelTotalDays default_cfg
        \<le> m_myOsmiaPrepupaDevelTotalDays example_prepupa"
    unfolding example_prepupa_def default_params_def by (rule inst [THEN conjunct1])
  have hi: "m_myOsmiaPrepupaDevelTotalDays example_prepupa
        \<le> 11 / 10 * cfg_OsmiaPrepupaDevelTotalDays default_cfg"
    unfolding example_prepupa_def default_params_def
    by (rule inst [THEN conjunct2, THEN conjunct1])
  have val: "m_myOsmiaPrepupaDevelTotalDays example_prepupa = 45"
    by (simp add: example_prepupa_def example_defs)
  have cnt: "uni_calls (snd (Osmia_Prepupa_ctor default_params example_data
                             (rng_const (1 / 2) 50))) = 1"
    by (simp add: example_prepupa_def example_defs)
  from h1 h2 h3 val lo hi cnt show ?thesis by (intro conjI)
qed

subsection \<open>The winter-mortality draw in a life\<close>

lemma WinterMortality_int_calls:
  "int_calls (snd (Osmia_InCocoon_WinterMortality P c g)) = int_calls g + 1"
  by (simp add: Osmia_InCocoon_WinterMortality_def g_random_fnc_def split_beta)

lemma InCocoon_st_Develop_draw:
  assumes "counter_drops_below_one P d c"
  shows "int_calls (snd (snd (Osmia_InCocoon_st_Develop P d nest c g))) = int_calls g + 1"
    and "fst (Osmia_InCocoon_st_Develop P d nest c g) = toOsmias_Die
         \<or> fst (Osmia_InCocoon_st_Develop P d nest c g) = toOsmias_NextStage"
  using assms
  by (simp_all add: counter_drops_below_one_def Osmia_InCocoon_st_Develop_def Let_def split_beta
        WinterMortality_int_calls)

lemma InCocoon_st_Develop_no_draw:
  assumes "\<not> counter_drops_below_one P d c"
  shows "snd (snd (Osmia_InCocoon_st_Develop P d nest c g)) = g"
    and "fst (Osmia_InCocoon_st_Develop P d nest c g) = toOsmias_Develop
         \<or> fst (Osmia_InCocoon_st_Develop P d nest c g) = toOsmias_Die"
  using assms
  by (auto simp add: counter_drops_below_one_def Osmia_InCocoon_st_Develop_def Let_def split_beta)

lemma InCocoon_st_Develop_winter:
  assumes "\<not> IsEndPreWinter d \<or> \<not> IsOverWinterEnd d"
  shows "snd (snd (Osmia_InCocoon_st_Develop P d nest c g)) = g"
    and "fst (Osmia_InCocoon_st_Develop P d nest c g) = toOsmias_Develop"
  using assms
  by (auto simp add: Osmia_InCocoon_st_Develop_def Let_def split_beta)


lemma new_Osmia_int_calls:
  "int_calls (snd (new_Osmia P t data g)) = int_calls g"
  by (cases t)
     (simp_all add: new_Osmia_def Osmia_InCocoon_ctor_def Osmia_Pupa_ctor_def
        Osmia_Prepupa_ctor_def g_rand_uni_fnc_def Let_def split_beta)

lemma CreateObjects_loop_int_calls:
  "int_calls (snd (CreateObjects_loop P t data n g)) = int_calls g"
  by (induction n arbitrary: g) (simp_all add: split_beta new_Osmia_int_calls)

lemma InCocoon_st_Emerge_int_calls:
  "int_calls (snd (snd (snd (snd (Osmia_InCocoon_st_Emerge P c g))))) = int_calls g"
  by (simp add: Osmia_InCocoon_st_Emerge_def CreateObjects_def Let_def split_beta
        new_Osmia_int_calls)

lemma InCocoon_st_Emerge_state:
  "(fst (Osmia_InCocoon_st_Emerge P c g) = toOsmias_Die
      \<and> fst (snd (Osmia_InCocoon_st_Emerge P c g)) = c)
   \<or> (fst (Osmia_InCocoon_st_Emerge P c g) = toOsmias_Emerged
      \<and> fst (snd (Osmia_InCocoon_st_Emerge P c g)) = KillThis c)"
  by (simp add: Osmia_InCocoon_st_Emerge_def Let_def split_beta)
lemma Step_keeps_drawn_at_most_once:
  assumes "drawn_at_most_once k w"
  shows "\<exists>w'. Osmia_InCocoon_Step P d nest w = Inr w' \<and> drawn_at_most_once k w'"
proof (cases "m_StepDone (w_self w) \<or> m_CurrentStateNo (w_self w) = - 1")
  case True
  then have "Osmia_InCocoon_Step P d nest w = Inr w"
    by (simp add: Osmia_InCocoon_Step_def Let_def)
  with assms show ?thesis by simp
next
  case False
  note live = this
  show ?thesis
  proof (cases "m_CurrentOState (w_self w)")
    case toOsmias_InitialState
    with live assms show ?thesis
      by (simp add: Osmia_InCocoon_Step_def Let_def drawn_at_most_once_def)
  next
    case toOsmias_Develop
    with assms live have k: "int_calls (w_rng w) = k"
      by (simp add: drawn_at_most_once_def)
    obtain s c' g' where st:
      "Osmia_InCocoon_st_Develop P d nest (w_self w) (w_rng w) = (s, c', g')"
      by (cases "Osmia_InCocoon_st_Develop P d nest (w_self w) (w_rng w)")
    have step: "Osmia_InCocoon_Step P d nest w
        = Inr (w\<lparr>w_self := c'\<lparr>m_CurrentOState := s, m_StepDone := True\<rparr>, w_rng := g'\<rparr>)"
      using live toOsmias_Develop st by (simp add: Osmia_InCocoon_Step_def Let_def)
    have "drawn_at_most_once k
            (w\<lparr>w_self := c'\<lparr>m_CurrentOState := s, m_StepDone := True\<rparr>, w_rng := g'\<rparr>)"
    proof (cases "counter_drops_below_one P d (w_self w)")
      case True
      from InCocoon_st_Develop_draw [OF True, of nest "w_rng w"] st k
      show ?thesis by (auto simp: drawn_at_most_once_def)
    next
      case False
      from InCocoon_st_Develop_no_draw [OF False, of nest "w_rng w"] st k
      show ?thesis by (auto simp: drawn_at_most_once_def)
    qed
    with step show ?thesis by simp
  next
    case toOsmias_NextStage
    with assms live have k: "int_calls (w_rng w) \<le> k + 1"
      by (simp add: drawn_at_most_once_def)
    obtain s c' created removed g' where st:
      "Osmia_InCocoon_st_Emerge P (w_self w) (w_rng w) = (s, c', created, removed, g')"
      by (cases "Osmia_InCocoon_st_Emerge P (w_self w) (w_rng w)") auto
    have step: "Osmia_InCocoon_Step P d nest w
        = Inr (w\<lparr>w_self := c'\<lparr>m_CurrentOState := s\<rparr>,
                  w_created := w_created w @ created,
                  w_cell_removed := (w_cell_removed w \<or> removed),
                  w_rng := g'\<rparr>)"
      using live toOsmias_NextStage st by (simp add: Osmia_InCocoon_Step_def Let_def)
    have "int_calls g' = int_calls (w_rng w)"
      using InCocoon_st_Emerge_int_calls [of P "w_self w" "w_rng w"] st by simp
    moreover have "s = toOsmias_Die \<or> m_CurrentStateNo c' = - 1"
      using InCocoon_st_Emerge_state [of P "w_self w" "w_rng w"] st
      by (auto simp: KillThis_def)
    ultimately have "drawn_at_most_once k
        (w\<lparr>w_self := c'\<lparr>m_CurrentOState := s\<rparr>,
           w_created := w_created w @ created,
           w_cell_removed := (w_cell_removed w \<or> removed),
           w_rng := g'\<rparr>)"
      using k by (auto simp: drawn_at_most_once_def)
    with step show ?thesis by simp
  next
    case toOsmias_Die
    with assms live have k: "int_calls (w_rng w) \<le> k + 1"
      by (simp add: drawn_at_most_once_def)
    with live toOsmias_Die show ?thesis
      by (simp add: Osmia_InCocoon_Step_def Let_def drawn_at_most_once_def KillThis_def)
  next
    case toOsmias_Disperse
    with assms live show ?thesis by (simp add: drawn_at_most_once_def)
  next
    case toOsmias_NestProvisioning
    with assms live show ?thesis by (simp add: drawn_at_most_once_def)
  next
    case toOsmias_ReproductiveBehaviour
    with assms live show ?thesis by (simp add: drawn_at_most_once_def)
  next
    case toOsmias_Emerged
    with assms live show ?thesis by (simp add: drawn_at_most_once_def)
  qed
qed

lemma Steps_keep_drawn_at_most_once:
  assumes "drawn_at_most_once k w"
  shows "\<exists>w'. Osmia_InCocoon_Steps P nest cs w = Inr w' \<and> drawn_at_most_once k w'"
  using assms
proof (induction cs arbitrary: w)
  case Nil
  then show ?case by simp
next
  case (Cons a cs)
  obtain new_day d where a: "a = (new_day, d)" by (cases a)
  define w0 where "w0 = (if new_day then w\<lparr>w_self := (w_self w)\<lparr>m_StepDone := False\<rparr>\<rparr> else w)"
  have "drawn_at_most_once k w0"
    using Cons.prems by (simp add: w0_def drawn_at_most_once_def)
  then obtain w1 where w1: "Osmia_InCocoon_Step P d nest w0 = Inr w1" "drawn_at_most_once k w1"
    using Step_keeps_drawn_at_most_once by blast
  from Cons.IH [OF w1(2)] obtain w' where
    "Osmia_InCocoon_Steps P nest cs w1 = Inr w'" "drawn_at_most_once k w'" by blast
  with w1(1) show ?case
    by (simp add: a w0_def [symmetric])
qed

text \<open>
  C7: in any sequence of calls of \<^verbatim>\<open>Step\<close> on a cocoon that starts in its initial or
  developing state no call exits the process and the winter-mortality draw (the only use of
  \<^verbatim>\<open>g_random_fnc\<close>) is made at most once; a cocoon leaves its constructor in the initial
  state. One day of development makes the draw exactly
  when the decremented emergence counter is below 1 on a warm day of the emergence
  season, and then the day ends in death or in the next stage; it never uses the uniform
  generator of the daily mortality tests; and while prewintering or deep winter lasts (one
  of the two season flags not set) the day makes no draw at all and ends in development.
\<close>

theorem winter_mortality_drawn_at_most_once:
  assumes "m_CurrentOState (w_self w) = toOsmias_InitialState
           \<or> m_CurrentOState (w_self w) = toOsmias_Develop"
  shows "(\<exists>w'. Osmia_InCocoon_Steps P nest cs w = Inr w'
              \<and> int_calls (w_rng w') \<le> int_calls (w_rng w) + 1)
    \<and> int_calls (snd (snd (Osmia_InCocoon_st_Develop P d nest c g)))
        = int_calls g + (if counter_drops_below_one P d c then 1 else 0)
    \<and> uni_calls (snd (snd (Osmia_InCocoon_st_Develop P d nest c g))) = uni_calls g
    \<and> (counter_drops_below_one P d c \<longrightarrow>
          fst (Osmia_InCocoon_st_Develop P d nest c g) = toOsmias_Die
          \<or> fst (Osmia_InCocoon_st_Develop P d nest c g) = toOsmias_NextStage)
    \<and> (\<not> IsEndPreWinter d \<or> \<not> IsOverWinterEnd d \<longrightarrow>
          snd (snd (Osmia_InCocoon_st_Develop P d nest c g)) = g
          \<and> fst (Osmia_InCocoon_st_Develop P d nest c g) = toOsmias_Develop)
    \<and> m_CurrentOState (fst (Osmia_InCocoon_ctor P data g)) = toOsmias_InitialState"
proof (intro conjI impI)
  have "drawn_at_most_once (int_calls (w_rng w)) w"
    using assms by (simp add: drawn_at_most_once_def)
  then obtain w' where w': "Osmia_InCocoon_Steps P nest cs w = Inr w'"
      "drawn_at_most_once (int_calls (w_rng w)) w'"
    using Steps_keep_drawn_at_most_once by blast
  from w'(2) have "int_calls (w_rng w') \<le> int_calls (w_rng w) + 1"
    by (auto simp: drawn_at_most_once_def)
  with w'(1) show "\<exists>w'. Osmia_InCocoon_Steps P nest cs w = Inr w'
              \<and> int_calls (w_rng w') \<le> int_calls (w_rng w) + 1"
    by blast
next
  show "int_calls (snd (snd (Osmia_InCocoon_st_Develop P d nest c g)))
        = int_calls g + (if counter_drops_below_one P d c then 1 else 0)"
    using InCocoon_st_Develop_draw(1) [of P d c nest g]
      InCocoon_st_Develop_no_draw(1) [of P d c nest g]
    by (cases "counter_drops_below_one P d c") simp_all
next
  show "uni_calls (snd (snd (Osmia_InCocoon_st_Develop P d nest c g))) = uni_calls g"
    by (simp add: Osmia_InCocoon_st_Develop_def Osmia_InCocoon_WinterMortality_def
          g_random_fnc_def Let_def split_beta)
next
  assume "counter_drops_below_one P d c"
  then show "fst (Osmia_InCocoon_st_Develop P d nest c g) = toOsmias_Die
          \<or> fst (Osmia_InCocoon_st_Develop P d nest c g) = toOsmias_NextStage"
    by (rule InCocoon_st_Develop_draw(2))
next
  assume "\<not> IsEndPreWinter d \<or> \<not> IsOverWinterEnd d"
  then show "snd (snd (Osmia_InCocoon_st_Develop P d nest c g)) = g"
    by (rule InCocoon_st_Develop_winter(1))
next
  assume "\<not> IsEndPreWinter d \<or> \<not> IsOverWinterEnd d"
  then show "fst (Osmia_InCocoon_st_Develop P d nest c g) = toOsmias_Develop"
    by (rule InCocoon_st_Develop_winter(2))
next
  show "m_CurrentOState (fst (Osmia_InCocoon_ctor P data g)) = toOsmias_InitialState"
    by (simp add: Osmia_InCocoon_ctor_def Osmia_Pupa_ctor_def Osmia_Prepupa_ctor_def
          Osmia_Larva_ctor_def Osmia_Egg_ctor_def Let_def split_beta)
qed

theorem winter_mortality_drawn_at_most_once_witness:
  "m_CurrentOState (w_self example_world) = toOsmias_InitialState
   \<and> (\<exists>w'. Osmia_InCocoon_Steps short_count_params (example_nest False) example_life
               example_world = Inr w'
         \<and> int_calls (w_rng w') \<le> int_calls (w_rng example_world) + 1)
   \<and> (case Osmia_InCocoon_Steps short_count_params (example_nest False) example_life
             example_world of
         Inl _ \<Rightarrow> False
       | Inr w' \<Rightarrow> int_calls (w_rng w') = 1 \<and> m_CurrentStateNo (w_self w') = - 1
            \<and> length (w_created w') = 1 \<and> m_DDPrewinter (w_self w') = 5
            \<and> m_AgeDegrees (w_self w') = 3 \<and> m_emergencecounter (w_self w') = 0)
   \<and> \<not> IsEndPreWinter (example_day 20 250 False False)
   \<and> snd (snd (Osmia_InCocoon_st_Develop short_count_params (example_day 20 250 False False)
        (example_nest False) example_cocoon (rng_const (1 / 2) 50))) = rng_const (1 / 2) 50
   \<and> counter_drops_below_one short_count_params (example_day 6 61 True True)
        (example_cocoon\<lparr>m_emergencecounter := 1\<rparr>)
   \<and> fst (Osmia_InCocoon_st_Develop short_count_params (example_day 6 61 True True)
        (example_nest False) (example_cocoon\<lparr>m_emergencecounter := 1\<rparr>)
        (rng_const (1 / 2) 50)) = toOsmias_NextStage"
proof -
  have start: "m_CurrentOState (w_self example_world) = toOsmias_InitialState
               \<or> m_CurrentOState (w_self example_world) = toOsmias_Develop"
    by (simp add: example_world_def example_cocoon_def example_defs)
  note inst = winter_mortality_drawn_at_most_once [OF start]
  have once: "\<exists>w'. Osmia_InCocoon_Steps short_count_params (example_nest False) example_life
               example_world = Inr w'
         \<and> int_calls (w_rng w') \<le> int_calls (w_rng example_world) + 1"
    using inst [of short_count_params "example_nest False" example_life] by blast
  have winter: "snd (snd (Osmia_InCocoon_st_Develop short_count_params
        (example_day 20 250 False False) (example_nest False) example_cocoon
        (rng_const (1 / 2) 50))) = rng_const (1 / 2) 50"
    using inst [of short_count_params "example_nest False" "[]" "example_day 20 250 False False"
                  example_cocoon "rng_const (1 / 2) 50"]
    by (simp add: IsEndPreWinter_def example_day_def)
  have run: "(case Osmia_InCocoon_Steps short_count_params (example_nest False) example_life
             example_world of
         Inl _ \<Rightarrow> False
       | Inr w' \<Rightarrow> int_calls (w_rng w') = 1 \<and> m_CurrentStateNo (w_self w') = - 1
            \<and> length (w_created w') = 1 \<and> m_DDPrewinter (w_self w') = 5
            \<and> m_AgeDegrees (w_self w') = 3 \<and> m_emergencecounter (w_self w') = 0)"
    by (simp add: example_world_def example_life_def short_count_params_def
          Osmia_InCocoon_Step_def Osmia_InCocoon_st_Develop_def Osmia_InCocoon_st_Emerge_def
          Osmia_InCocoon_WinterMortality_def IsEndPreWinter_def IsOverWinterEnd_def
          GetAspectDelay_def double_to_int_def KillThis_def CreateObjects_def new_Osmia_def
          example_cocoon_def example_defs Let_def split_beta)
  have first: "m_CurrentOState (w_self example_world) = toOsmias_InitialState"
    by (simp add: example_world_def example_cocoon_def example_defs)
  have flag: "\<not> IsEndPreWinter (example_day 20 250 False False)"
    by (simp add: IsEndPreWinter_def example_day_def)
  have drops: "counter_drops_below_one short_count_params (example_day 6 61 True True)
        (example_cocoon\<lparr>m_emergencecounter := 1\<rparr>)"
    by (simp add: counter_drops_below_one_def IsEndPreWinter_def IsOverWinterEnd_def
          short_count_params_def example_cocoon_def example_defs)
  have next_stage: "fst (Osmia_InCocoon_st_Develop short_count_params (example_day 6 61 True True)
        (example_nest False) (example_cocoon\<lparr>m_emergencecounter := 1\<rparr>)
        (rng_const (1 / 2) 50)) = toOsmias_NextStage"
    by (simp add: Osmia_InCocoon_st_Develop_def Osmia_InCocoon_WinterMortality_def
          IsEndPreWinter_def IsOverWinterEnd_def short_count_params_def example_cocoon_def
          example_defs
          Let_def split_beta)
  from first once run flag winter drops next_stage show ?thesis by (intro conjI)
qed

subsection \<open>The emergence of the adult\<close>

lemma CreateObjects_one:
  "CreateObjects P t data 1 g = ([fst (new_Osmia P t data g)], snd (new_Osmia P t data g))"
  by (simp add: CreateObjects_def split_beta)

lemma InCocoon_ctor_base:
  "m_Mass (fst (Osmia_InCocoon_ctor P data g)) = sO_mass data
   \<and> m_Age (fst (Osmia_InCocoon_ctor P data g)) = sO_age data
   \<and> m_OurNest (fst (Osmia_InCocoon_ctor P data g)) = sO_nest data
   \<and> m_Sex (fst (Osmia_InCocoon_ctor P data g)) = sO_sex data
   \<and> m_ParasitoidStatus (fst (Osmia_InCocoon_ctor P data g)) = sO_parasitised data"
  by (simp add: Osmia_InCocoon_ctor_def Osmia_Pupa_ctor_def Osmia_Prepupa_ctor_def
        Osmia_Larva_ctor_def Osmia_Egg_ctor_def split_beta)
lemma new_Osmia_Female:
  "new_Osmia P to_OsmiaFemale data g
     = (Female (fst (Osmia_InCocoon_ctor P data g)), snd (Osmia_InCocoon_ctor P data g))"
  by (simp add: new_Osmia_def split_beta)

lemma InCocoon_st_Emerge_female:
  assumes "m_Sex c" and "m_ParasitoidStatus c = topara_Unparasitised"
  shows "\<exists>f g'. Osmia_InCocoon_st_Emerge P c g
                  = (toOsmias_Emerged, KillThis c, [Female f], True, g')
           \<and> m_Mass f = m_OsmiaFemaleMassFromProvMassSlope P * m_Mass c
                          + m_OsmiaFemaleMassFromProvMassConst P
           \<and> m_Age f = 0
           \<and> m_OurNest f = None"
proof -
  define sO where "sO = \<lparr> sO_x = m_Location_x c, sO_y = m_Location_y c, sO_age = 0,
      sO_sex = m_Sex c, sO_nest = None, sO_parasitised = topara_Unparasitised,
      sO_mass = m_OsmiaFemaleMassFromProvMassSlope P * m_Mass c
                + m_OsmiaFemaleMassFromProvMassConst P,
      sO_pest_mortality = 0, sO_overwintering_degree_days = 0 \<rparr>"
  define f where "f = fst (Osmia_InCocoon_ctor P sO g)"
  define g' where "g' = snd (Osmia_InCocoon_ctor P sO g)"
  have run: "Osmia_InCocoon_st_Emerge P c g = (toOsmias_Emerged, KillThis c, [Female f], True, g')"
    using assms
    by (simp add: Osmia_InCocoon_st_Emerge_def CreateObjects_one new_Osmia_Female
          Let_def sO_def f_def g'_def)
  have "m_Mass f = sO_mass sO" "m_Age f = sO_age sO" "m_OurNest f = sO_nest sO"
    using InCocoon_ctor_base [of P sO g] by (simp_all add: f_def)
  then have fields: "m_Mass f = m_OsmiaFemaleMassFromProvMassSlope P * m_Mass c
                          + m_OsmiaFemaleMassFromProvMassConst P"
    "m_Age f = 0" "m_OurNest f = None"
    by (simp_all add: sO_def)
  from run fields show ?thesis by blast
qed
lemma parasitised_female_steps:
  assumes "m_Sex c" "m_ParasitoidStatus c \<noteq> topara_Unparasitised"
    "m_CurrentOState c = toOsmias_NextStage" "\<not> m_StepDone c" "m_CurrentStateNo c \<noteq> - 1"
  shows "Osmia_InCocoon_Steps P nest [(False, d1), (False, d2)]
           \<lparr>w_self = c, w_created = [], w_cell_removed = False, w_rng = g\<rparr>
         = Inr \<lparr>w_self = (KillThis (c\<lparr>m_CurrentOState := toOsmias_Die\<rparr>))\<lparr>m_StepDone := True\<rparr>,
                w_created = [], w_cell_removed = True, w_rng = g\<rparr>"
  using assms
  by (simp add: Osmia_InCocoon_Step_def Osmia_InCocoon_st_Emerge_def KillThis_def Let_def)

text \<open>
  C8: at emergence a male is killed and its cell removed without any object being created;
  a parasitised female returns the dying state with nothing created, and the two calls of
  \<^verbatim>\<open>Step\<close> from the next-stage state leave it killed, its cell removed, and still nothing
  created; an unparasitised female creates exactly one object, a female whose mass is
  \<open>slope * mass + const\<close>, whose age is 0 and whose nest pointer is null.
\<close>

theorem InCocoon_emergence_outcomes:
  "(\<not> m_Sex c \<longrightarrow>
      Osmia_InCocoon_st_Emerge P c g = (toOsmias_Emerged, KillThis c, [], True, g))
   \<and> (m_Sex c \<and> m_ParasitoidStatus c \<noteq> topara_Unparasitised \<longrightarrow>
      Osmia_InCocoon_st_Emerge P c g = (toOsmias_Die, c, [], False, g))
   \<and> (m_Sex c \<and> m_ParasitoidStatus c \<noteq> topara_Unparasitised
        \<and> m_CurrentOState c = toOsmias_NextStage \<and> \<not> m_StepDone c
        \<and> m_CurrentStateNo c \<noteq> - 1 \<longrightarrow>
      Osmia_InCocoon_Steps P nest [(False, d1), (False, d2)]
           \<lparr>w_self = c, w_created = [], w_cell_removed = False, w_rng = g\<rparr>
         = Inr \<lparr>w_self = (KillThis (c\<lparr>m_CurrentOState := toOsmias_Die\<rparr>))\<lparr>m_StepDone := True\<rparr>,
                w_created = [], w_cell_removed = True, w_rng = g\<rparr>)
   \<and> (m_Sex c \<and> m_ParasitoidStatus c = topara_Unparasitised \<longrightarrow>
      (\<exists>f g'. Osmia_InCocoon_st_Emerge P c g = (toOsmias_Emerged, KillThis c, [Female f], True, g')
         \<and> m_Mass f = m_OsmiaFemaleMassFromProvMassSlope P * m_Mass c
                        + m_OsmiaFemaleMassFromProvMassConst P
         \<and> m_Age f = 0
         \<and> m_OurNest f = None))"
proof (intro conjI impI)
  assume "\<not> m_Sex c"
  then show "Osmia_InCocoon_st_Emerge P c g = (toOsmias_Emerged, KillThis c, [], True, g)"
    by (simp add: Osmia_InCocoon_st_Emerge_def)
next
  assume "m_Sex c \<and> m_ParasitoidStatus c \<noteq> topara_Unparasitised"
  then show "Osmia_InCocoon_st_Emerge P c g = (toOsmias_Die, c, [], False, g)"
    by (simp add: Osmia_InCocoon_st_Emerge_def)
next
  assume "m_Sex c \<and> m_ParasitoidStatus c \<noteq> topara_Unparasitised
        \<and> m_CurrentOState c = toOsmias_NextStage \<and> \<not> m_StepDone c
        \<and> m_CurrentStateNo c \<noteq> - 1"
  then show "Osmia_InCocoon_Steps P nest [(False, d1), (False, d2)]
           \<lparr>w_self = c, w_created = [], w_cell_removed = False, w_rng = g\<rparr>
         = Inr \<lparr>w_self = (KillThis (c\<lparr>m_CurrentOState := toOsmias_Die\<rparr>))\<lparr>m_StepDone := True\<rparr>,
                w_created = [], w_cell_removed = True, w_rng = g\<rparr>"
    using parasitised_female_steps [of c P nest d1 d2 g] by blast
next
  assume "m_Sex c \<and> m_ParasitoidStatus c = topara_Unparasitised"
  then show "\<exists>f g'. Osmia_InCocoon_st_Emerge P c g
                  = (toOsmias_Emerged, KillThis c, [Female f], True, g')
           \<and> m_Mass f = m_OsmiaFemaleMassFromProvMassSlope P * m_Mass c
                          + m_OsmiaFemaleMassFromProvMassConst P
           \<and> m_Age f = 0
           \<and> m_OurNest f = None"
    using InCocoon_st_Emerge_female [of c P g] by blast
qed

theorem InCocoon_emergence_outcomes_witness:
  "\<not> m_Sex (example_cocoon\<lparr>m_Sex := False\<rparr>)
   \<and> Osmia_InCocoon_st_Emerge default_params (example_cocoon\<lparr>m_Sex := False\<rparr>)
        (rng_const (1 / 2) 50)
      = (toOsmias_Emerged, KillThis (example_cocoon\<lparr>m_Sex := False\<rparr>), [], True,
         rng_const (1 / 2) 50)
   \<and> m_Sex (example_cocoon\<lparr>m_ParasitoidStatus := topara_Bombylid\<rparr>)
   \<and> m_ParasitoidStatus (example_cocoon\<lparr>m_ParasitoidStatus := topara_Bombylid\<rparr>)
        \<noteq> topara_Unparasitised
   \<and> Osmia_InCocoon_st_Emerge default_params
        (example_cocoon\<lparr>m_ParasitoidStatus := topara_Bombylid\<rparr>) (rng_const (1 / 2) 50)
      = (toOsmias_Die, example_cocoon\<lparr>m_ParasitoidStatus := topara_Bombylid\<rparr>, [], False,
         rng_const (1 / 2) 50)
   \<and> m_Sex example_cocoon \<and> m_ParasitoidStatus example_cocoon = topara_Unparasitised
   \<and> (\<exists>f g'. Osmia_InCocoon_st_Emerge default_params example_cocoon (rng_const (1 / 2) 50)
              = (toOsmias_Emerged, KillThis example_cocoon, [Female f], True, g')
         \<and> m_Mass f = 29 \<and> m_Age f = 0 \<and> m_OurNest f = None)"
proof -
  have male: "\<not> m_Sex (example_cocoon\<lparr>m_Sex := False\<rparr>)" by simp
  have para: "m_Sex (example_cocoon\<lparr>m_ParasitoidStatus := topara_Bombylid\<rparr>)
      \<and> m_ParasitoidStatus (example_cocoon\<lparr>m_ParasitoidStatus := topara_Bombylid\<rparr>)
          \<noteq> topara_Unparasitised"
    by (simp add: example_cocoon_def example_defs)
  have fem: "m_Sex example_cocoon \<and> m_ParasitoidStatus example_cocoon = topara_Unparasitised"
    by (simp add: example_cocoon_def example_defs)
  have mass: "m_OsmiaFemaleMassFromProvMassSlope default_params * m_Mass example_cocoon
                + m_OsmiaFemaleMassFromProvMassConst default_params = 29"
    by (simp add: example_cocoon_def example_defs)
  have r1: "Osmia_InCocoon_st_Emerge default_params (example_cocoon\<lparr>m_Sex := False\<rparr>)
        (rng_const (1 / 2) 50)
      = (toOsmias_Emerged, KillThis (example_cocoon\<lparr>m_Sex := False\<rparr>), [], True,
         rng_const (1 / 2) 50)"
    using InCocoon_emergence_outcomes
            [of "example_cocoon\<lparr>m_Sex := False\<rparr>" default_params "rng_const (1 / 2) 50"]
          male
    by blast
  have r2: "Osmia_InCocoon_st_Emerge default_params
        (example_cocoon\<lparr>m_ParasitoidStatus := topara_Bombylid\<rparr>) (rng_const (1 / 2) 50)
      = (toOsmias_Die, example_cocoon\<lparr>m_ParasitoidStatus := topara_Bombylid\<rparr>, [], False,
         rng_const (1 / 2) 50)"
    using InCocoon_emergence_outcomes
            [of "example_cocoon\<lparr>m_ParasitoidStatus := topara_Bombylid\<rparr>" default_params
                "rng_const (1 / 2) 50"]
          para
    by blast
  have r3: "\<exists>f g'. Osmia_InCocoon_st_Emerge default_params example_cocoon (rng_const (1 / 2) 50)
              = (toOsmias_Emerged, KillThis example_cocoon, [Female f], True, g')
         \<and> m_Mass f = 29 \<and> m_Age f = 0 \<and> m_OurNest f = None"
    using InCocoon_emergence_outcomes [of example_cocoon default_params "rng_const (1 / 2) 50"]
          fem
    by (simp only: mass)
  from male r1 para r2 fem r3 show ?thesis by blast
qed

subsection \<open>What a metamorphosis carries forward\<close>

lemma Prepupa_ctor_base:
  "m_Mass (fst (Osmia_Prepupa_ctor P data g)) = sO_mass data
   \<and> m_Sex (fst (Osmia_Prepupa_ctor P data g)) = sO_sex data
   \<and> m_ParasitoidStatus (fst (Osmia_Prepupa_ctor P data g)) = sO_parasitised data"
  by (simp add: Osmia_Prepupa_ctor_def Osmia_Larva_ctor_def Osmia_Egg_ctor_def split_beta)
lemma Egg_step_keeps:
  "m_Mass (fst (snd (Osmia_Egg_st_Develop P d nest e g))) = m_Mass e
   \<and> m_Sex (fst (snd (Osmia_Egg_st_Develop P d nest e g))) = m_Sex e
   \<and> m_ParasitoidStatus (fst (snd (Osmia_Egg_st_Develop P d nest e g))) = m_ParasitoidStatus e"
  by (simp add: Osmia_Egg_st_Develop_def Let_def split_beta)

lemma Larva_step_keeps:
  "m_Mass (fst (snd (Osmia_Larva_st_Develop P d nest e g))) = m_Mass e
   \<and> m_Sex (fst (snd (Osmia_Larva_st_Develop P d nest e g))) = m_Sex e
   \<and> m_ParasitoidStatus (fst (snd (Osmia_Larva_st_Develop P d nest e g))) = m_ParasitoidStatus e"
  by (simp add: Osmia_Larva_st_Develop_def Let_def split_beta)

lemma Prepupa_step_keeps:
  "m_Mass (fst (snd (Osmia_Prepupa_st_Develop P d e g))) = m_Mass e
   \<and> m_Sex (fst (snd (Osmia_Prepupa_st_Develop P d e g))) = m_Sex e
   \<and> m_ParasitoidStatus (fst (snd (Osmia_Prepupa_st_Develop P d e g))) = m_ParasitoidStatus e"
  by (simp add: Osmia_Prepupa_st_Develop_def Let_def split_beta)

lemma Pupa_step_keeps:
  "m_Mass (fst (snd (Osmia_Pupa_st_Develop P d e g))) = m_Mass e
   \<and> m_Sex (fst (snd (Osmia_Pupa_st_Develop P d e g))) = m_Sex e
   \<and> m_ParasitoidStatus (fst (snd (Osmia_Pupa_st_Develop P d e g))) = m_ParasitoidStatus e"
  by (simp add: Osmia_Pupa_st_Develop_def Let_def split_beta)

lemma InCocoon_step_keeps:
  "m_Mass (fst (snd (Osmia_InCocoon_st_Develop P d nest e g))) = m_Mass e
   \<and> m_Sex (fst (snd (Osmia_InCocoon_st_Develop P d nest e g))) = m_Sex e
   \<and> m_ParasitoidStatus (fst (snd (Osmia_InCocoon_st_Develop P d nest e g)))
       = m_ParasitoidStatus e"
  by (simp add: Osmia_InCocoon_st_Develop_def Let_def split_beta)

lemma Egg_days_keep:
  "m_Mass (fst (snd (Osmia_Egg_develop_days P ds e g))) = m_Mass e
   \<and> m_Sex (fst (snd (Osmia_Egg_develop_days P ds e g))) = m_Sex e
   \<and> m_ParasitoidStatus (fst (snd (Osmia_Egg_develop_days P ds e g))) = m_ParasitoidStatus e"
proof (induction ds arbitrary: e g)
  case Nil
  show ?case by simp
next
  case (Cons a ds)
  obtain d nest where a: "a = (d, nest)" by (cases a)
  obtain s e' g' where st: "Osmia_Egg_st_Develop P d nest e g = (s, e', g')"
    by (cases "Osmia_Egg_st_Develop P d nest e g")
  have keep: "m_Mass e' = m_Mass e \<and> m_Sex e' = m_Sex e
      \<and> m_ParasitoidStatus e' = m_ParasitoidStatus e"
    using Egg_step_keeps [of P d nest e g] by (simp add: st)
  show ?case
    using Cons.IH [of e' g'] keep by (simp add: a st)
qed

lemma Larva_days_keep:
  "m_Mass (fst (snd (Osmia_Larva_develop_days P ds e g))) = m_Mass e
   \<and> m_Sex (fst (snd (Osmia_Larva_develop_days P ds e g))) = m_Sex e
   \<and> m_ParasitoidStatus (fst (snd (Osmia_Larva_develop_days P ds e g))) = m_ParasitoidStatus e"
proof (induction ds arbitrary: e g)
  case Nil
  show ?case by simp
next
  case (Cons a ds)
  obtain d nest where a: "a = (d, nest)" by (cases a)
  obtain s e' g' where st: "Osmia_Larva_st_Develop P d nest e g = (s, e', g')"
    by (cases "Osmia_Larva_st_Develop P d nest e g")
  have keep: "m_Mass e' = m_Mass e \<and> m_Sex e' = m_Sex e
      \<and> m_ParasitoidStatus e' = m_ParasitoidStatus e"
    using Larva_step_keeps [of P d nest e g] by (simp add: st)
  show ?case
    using Cons.IH [of e' g'] keep by (simp add: a st)
qed

lemma Prepupa_days_keep:
  "m_Mass (fst (snd (Osmia_Prepupa_develop_days P ds e g))) = m_Mass e
   \<and> m_Sex (fst (snd (Osmia_Prepupa_develop_days P ds e g))) = m_Sex e
   \<and> m_ParasitoidStatus (fst (snd (Osmia_Prepupa_develop_days P ds e g)))
       = m_ParasitoidStatus e"
proof (induction ds arbitrary: e g)
  case Nil
  show ?case by simp
next
  case (Cons d ds)
  obtain s e' g' where st: "Osmia_Prepupa_st_Develop P d e g = (s, e', g')"
    by (cases "Osmia_Prepupa_st_Develop P d e g")
  have keep: "m_Mass e' = m_Mass e \<and> m_Sex e' = m_Sex e
      \<and> m_ParasitoidStatus e' = m_ParasitoidStatus e"
    using Prepupa_step_keeps [of P d e g] by (simp add: st)
  show ?case
    using Cons.IH [of e' g'] keep by (simp add: st)
qed

lemma Pupa_days_keep:
  "m_Mass (fst (snd (Osmia_Pupa_develop_days P ds e g))) = m_Mass e
   \<and> m_Sex (fst (snd (Osmia_Pupa_develop_days P ds e g))) = m_Sex e
   \<and> m_ParasitoidStatus (fst (snd (Osmia_Pupa_develop_days P ds e g))) = m_ParasitoidStatus e"
proof (induction ds arbitrary: e g)
  case Nil
  show ?case by simp
next
  case (Cons d ds)
  obtain s e' g' where st: "Osmia_Pupa_st_Develop P d e g = (s, e', g')"
    by (cases "Osmia_Pupa_st_Develop P d e g")
  have keep: "m_Mass e' = m_Mass e \<and> m_Sex e' = m_Sex e
      \<and> m_ParasitoidStatus e' = m_ParasitoidStatus e"
    using Pupa_step_keeps [of P d e g] by (simp add: st)
  show ?case
    using Cons.IH [of e' g'] keep by (simp add: st)
qed

text \<open>
  C9: each of the four metamorphoses (egg to larva, larva to prepupa, prepupa to pupa, pupa
  to adult in cocoon) creates exactly one object of the next stage whose mass, sex and
  parasitism status are those of its predecessor. The days of development inside a stage
  leave the three unchanged as well, so the sex given to the egg is the sex at every later
  stage, and the mass the cocoon starts with is the mass the pupa ended with.
\<close>

theorem metamorphosis_carries_mass_sex_parasitism:
  "(\<exists>l. fst (snd (snd (Osmia_Egg_st_Hatch P e g))) = [Larva l]
        \<and> m_Mass l = m_Mass e \<and> m_Sex l = m_Sex e
        \<and> m_ParasitoidStatus l = m_ParasitoidStatus e)
   \<and> (\<exists>p. fst (snd (snd (Osmia_Larva_st_Prepupate P l0 g))) = [Prepupa p]
        \<and> m_Mass p = m_Mass l0 \<and> m_Sex p = m_Sex l0
        \<and> m_ParasitoidStatus p = m_ParasitoidStatus l0)
   \<and> (\<exists>q. fst (snd (snd (Osmia_Prepupa_st_Pupate P p0 g))) = [Pupa q]
        \<and> m_Mass q = m_Mass p0 \<and> m_Sex q = m_Sex p0
        \<and> m_ParasitoidStatus q = m_ParasitoidStatus p0)
   \<and> (\<exists>c. fst (snd (snd (Osmia_Pupa_st_Emerge P q0 g))) = [InCocoon c]
        \<and> m_Mass c = m_Mass q0 \<and> m_Sex c = m_Sex q0
        \<and> m_ParasitoidStatus c = m_ParasitoidStatus q0)
   \<and> m_Sex (Osmia_Egg_ctor data) = sO_sex data
   \<and> (m_Mass (fst (snd (Osmia_Egg_develop_days P nds e g))) = m_Mass e
        \<and> m_Sex (fst (snd (Osmia_Egg_develop_days P nds e g))) = m_Sex e
        \<and> m_ParasitoidStatus (fst (snd (Osmia_Egg_develop_days P nds e g)))
            = m_ParasitoidStatus e)
   \<and> (m_Mass (fst (snd (Osmia_Larva_develop_days P nds l0 g))) = m_Mass l0
        \<and> m_Sex (fst (snd (Osmia_Larva_develop_days P nds l0 g))) = m_Sex l0
        \<and> m_ParasitoidStatus (fst (snd (Osmia_Larva_develop_days P nds l0 g)))
            = m_ParasitoidStatus l0)
   \<and> (m_Mass (fst (snd (Osmia_Prepupa_develop_days P ds p0 g))) = m_Mass p0
        \<and> m_Sex (fst (snd (Osmia_Prepupa_develop_days P ds p0 g))) = m_Sex p0
        \<and> m_ParasitoidStatus (fst (snd (Osmia_Prepupa_develop_days P ds p0 g)))
            = m_ParasitoidStatus p0)
   \<and> (m_Mass (fst (snd (Osmia_Pupa_develop_days P ds q0 g))) = m_Mass q0
        \<and> m_Sex (fst (snd (Osmia_Pupa_develop_days P ds q0 g))) = m_Sex q0
        \<and> m_ParasitoidStatus (fst (snd (Osmia_Pupa_develop_days P ds q0 g)))
            = m_ParasitoidStatus q0)
   \<and> (m_Mass (fst (snd (Osmia_InCocoon_st_Develop P d nest c0 g))) = m_Mass c0
        \<and> m_Sex (fst (snd (Osmia_InCocoon_st_Develop P d nest c0 g))) = m_Sex c0
        \<and> m_ParasitoidStatus (fst (snd (Osmia_InCocoon_st_Develop P d nest c0 g)))
            = m_ParasitoidStatus c0)"
proof -
  have transitions:
    "(\<exists>l. fst (snd (snd (Osmia_Egg_st_Hatch P e g))) = [Larva l]
        \<and> m_Mass l = m_Mass e \<and> m_Sex l = m_Sex e
        \<and> m_ParasitoidStatus l = m_ParasitoidStatus e)
     \<and> (\<exists>p. fst (snd (snd (Osmia_Larva_st_Prepupate P l0 g))) = [Prepupa p]
        \<and> m_Mass p = m_Mass l0 \<and> m_Sex p = m_Sex l0
        \<and> m_ParasitoidStatus p = m_ParasitoidStatus l0)
     \<and> (\<exists>q. fst (snd (snd (Osmia_Prepupa_st_Pupate P p0 g))) = [Pupa q]
        \<and> m_Mass q = m_Mass p0 \<and> m_Sex q = m_Sex p0
        \<and> m_ParasitoidStatus q = m_ParasitoidStatus p0)
     \<and> (\<exists>c. fst (snd (snd (Osmia_Pupa_st_Emerge P q0 g))) = [InCocoon c]
        \<and> m_Mass c = m_Mass q0 \<and> m_Sex c = m_Sex q0
        \<and> m_ParasitoidStatus c = m_ParasitoidStatus q0)"
    using Prepupa_ctor_base [of P "struct_Osmia_of l0" g]
          Prepupa_ctor_base [of P "struct_Osmia_of p0" g]
          InCocoon_ctor_base [of P "struct_Osmia_of q0" g]
    by (simp add: Osmia_Egg_st_Hatch_def Osmia_Larva_st_Prepupate_def
          Osmia_Prepupa_st_Pupate_def Osmia_Pupa_st_Emerge_def CreateObjects_one new_Osmia_def
          split_beta Let_def Osmia_Larva_ctor_def Osmia_Egg_ctor_def Osmia_Pupa_ctor_def
          struct_Osmia_of_def)
  have egg_sex: "m_Sex (Osmia_Egg_ctor data) = sO_sex data"
    by (simp add: Osmia_Egg_ctor_def)
  show ?thesis
    using transitions egg_sex Egg_days_keep [of P nds e g] Larva_days_keep [of P nds l0 g]
      Prepupa_days_keep [of P ds p0 g] Pupa_days_keep [of P ds q0 g]
      InCocoon_step_keeps [of P d nest c0 g]
    by (intro conjI) (simp_all only: simp_thms)
qed

subsection \<open>Setting and getting the accumulator\<close>

lemma double_to_int_range:
  assumes "- 1 < v" and "v < 2 ^ 32"
  shows "0 \<le> double_to_int v \<and> double_to_int v < 2 ^ 32"
proof (cases "0 \<le> v")
  case True
  then have "double_to_int v = \<lfloor>v\<rfloor>" by (simp add: double_to_int_def)
  moreover have "0 \<le> \<lfloor>v\<rfloor>" using True by simp
  moreover have "\<lfloor>v\<rfloor> < 2 ^ 32"
  proof -
    have "real_of_int \<lfloor>v\<rfloor> \<le> v" by simp
    with assms(2) have "real_of_int \<lfloor>v\<rfloor> < real_of_int (2 ^ 32)" by simp
    then show ?thesis by (simp only: of_int_less_iff)
  qed
  ultimately show ?thesis by simp
next
  case False
  then have neg: "v < 0" by simp
  then have "double_to_int v = \<lceil>v\<rceil>" by (simp add: double_to_int_def)
  moreover have "\<lceil>v\<rceil> = 0"
    using assms(1) neg by (simp add: ceiling_eq_iff)
  ultimately show ?thesis by simp
qed

lemma double_to_int_not_integral:
  assumes "v \<notin> \<int>"
  shows "real_of_int (double_to_int v) \<noteq> v"
  using assms Ints_of_int by metis

lemma unat_word_of_int_32:
  assumes "0 \<le> t" and "t < 2 ^ 32"
  shows "unat (word_of_int t :: 32 word) = nat t"
proof -
  have "uint (word_of_int t :: 32 word) = take_bit 32 t"
    by (simp add: uint_word_of_int_eq)
  also have "\<dots> = t"
    using assms by (simp add: take_bit_int_eq_self)
  finally show ?thesis by (simp only: unat_eq_nat_uint)
qed
lemma half_not_int: "(5 / 2 :: real) \<notin> \<int>"
proof
  assume "(5 / 2 :: real) \<in> \<int>"
  then obtain z :: int where "(5 / 2 :: real) = real_of_int z"
    by (auto elim: Ints_cases)
  then have "real_of_int (2 * z) = real_of_int 5" by simp
  then have "2 * z = 5" by (simp only: of_int_eq_iff)
  then show False by presburger
qed

lemma minus_three_halves_not_int: "(- (3 / 2) :: real) \<notin> \<int>"
proof
  assume "(- (3 / 2) :: real) \<in> \<int>"
  then obtain z :: int where "(- (3 / 2) :: real) = real_of_int z"
    by (auto elim: Ints_cases)
  then have "real_of_int (2 * z) = real_of_int (- 3)" by simp
  then have "2 * z = - 3" by (simp only: of_int_eq_iff)
  then show False by presburger
qed

text \<open>
  C10, as stated: for every argument \<open>v\<close> that is not an integer, \<^verbatim>\<open>GetAgeDegrees\<close> after
  \<^verbatim>\<open>SetAgeDegrees(v)\<close> returns \<open>v\<close> with its fraction dropped. This fails at \<open>v = -1.5\<close>:
  the fraction dropped leaves -1, which no \<^verbatim>\<open>unsigned\<close> holds, so the conversion of the
  argument is undefined; and the \<^verbatim>\<open>unsigned\<close> that wraps -1 around makes \<^verbatim>\<open>GetAgeDegrees\<close>
  return 4294967295, not -1.
\<close>

theorem SetAgeDegrees_negative_not_truncation:
  "(- (3 / 2) :: real) \<notin> \<int>
   \<and> double_to_int (- (3 / 2)) = - 1
   \<and> SetAgeDegrees_double (- (3 / 2)) example_egg = None
   \<and> GetAgeDegrees (SetAgeDegrees (word_of_int (double_to_int (- (3 / 2)))) example_egg)
       = 4294967295
   \<and> GetAgeDegrees (SetAgeDegrees (word_of_int (double_to_int (- (3 / 2)))) example_egg)
       \<noteq> real_of_int (double_to_int (- (3 / 2)))"
proof -
  have t: "double_to_int (- (3 / 2)) = - 1"
    by (simp add: double_to_int_def)
  have none: "SetAgeDegrees_double (- (3 / 2)) example_egg = None"
    by (simp add: SetAgeDegrees_double_def double_to_unsigned_def t)
  have get: "GetAgeDegrees (SetAgeDegrees (word_of_int (double_to_int (- (3 / 2)))) example_egg)
       = 4294967295"
    by (simp add: t GetAgeDegrees_def SetAgeDegrees_def unsigned_minus_1_eq_mask
          mask_eq_exp_minus_1)
  have ne: "GetAgeDegrees (SetAgeDegrees (word_of_int (double_to_int (- (3 / 2)))) example_egg)
       \<noteq> real_of_int (double_to_int (- (3 / 2)))"
    using get by (simp add: t)
  from minus_three_halves_not_int t none get ne show ?thesis by (intro conjI)
qed

text \<open>
  C10, amended: \<^verbatim>\<open>SetAgeDegrees\<close> followed by \<^verbatim>\<open>GetAgeDegrees\<close> is not the identity on the
  accumulator. For every argument \<open>v\<close> that is not an integer and lies in the range where
  the conversion to \<^verbatim>\<open>unsigned\<close> is defined (\<open>-1 < v < 2^32\<close>), the call succeeds and
  \<^verbatim>\<open>GetAgeDegrees\<close> then returns \<open>v\<close> with its fraction dropped, which differs from \<open>v\<close> by
  less than 1.
\<close>

theorem SetAgeDegrees_drops_fraction:
  assumes "v \<notin> \<int>" and "- 1 < v" and "v < 2 ^ 32"
  shows "\<exists>e'. SetAgeDegrees_double v e = Some e'
           \<and> GetAgeDegrees e' = real_of_int (double_to_int v)
           \<and> GetAgeDegrees e' \<noteq> v
           \<and> \<bar>v - GetAgeDegrees e'\<bar> < 1"
proof -
  define t where "t = double_to_int v"
  have range: "0 \<le> t" "t < 2 ^ 32"
    using double_to_int_range [OF assms(2,3)] by (simp_all add: t_def)
  have conv: "double_to_unsigned v = Some (word_of_int t)"
    using range by (simp add: double_to_unsigned_def t_def [symmetric])
  have "real (unat (word_of_int t :: 32 word)) = real (nat t)"
    by (simp only: unat_word_of_int_32 [OF range])
  also have "\<dots> = real_of_int t"
    using range(1) by simp
  finally have stored: "real (unat (word_of_int t :: 32 word)) = real_of_int t" .
  have get: "GetAgeDegrees (SetAgeDegrees (word_of_int t) e) = real_of_int t"
    using stored by (simp add: GetAgeDegrees_def SetAgeDegrees_def)
  have differ: "real_of_int t \<noteq> v"
    unfolding t_def by (rule double_to_int_not_integral [OF assms(1)])
  have near: "\<bar>v - real_of_int t\<bar> < 1"
    unfolding t_def double_to_int_def by (simp split: if_splits) linarith
  have "SetAgeDegrees_double v e = Some (SetAgeDegrees (word_of_int t) e)"
    by (simp add: SetAgeDegrees_double_def conv)
  with get differ near show ?thesis
    unfolding t_def by simp
qed

theorem SetAgeDegrees_drops_fraction_witness:
  "(5 / 2 :: real) \<notin> \<int> \<and> - 1 < (5 / 2 :: real) \<and> (5 / 2 :: real) < 2 ^ 32
   \<and> SetAgeDegrees_double (5 / 2) example_egg = Some (example_egg\<lparr>m_AgeDegrees := 2\<rparr>)
   \<and> GetAgeDegrees (example_egg\<lparr>m_AgeDegrees := 2\<rparr>) = 2"
  using SetAgeDegrees_drops_fraction [OF half_not_int, of example_egg] half_not_int
  by (simp add: SetAgeDegrees_double_def double_to_unsigned_def double_to_int_def
        SetAgeDegrees_def GetAgeDegrees_def)

end
